theory Spec2Isabelle
  imports Main "HOL-Library.AList"
begin

section \<open>JavaScript values\<close>

text \<open>
  The service moves JSON-shaped values around: parsed webhook bodies, stored rows, the
  fields of both. A value is \<open>undefined\<close>, \<open>null\<close>, a boolean, a number, a string, an
  array or a plain object. A number is given by the text \<open>String\<close> prints for it
  (\<open>42\<close>, \<open>0.5\<close>, \<open>1e+21\<close>): the service never computes with a number it was handed,
  it only tests, prints, stores and compares it, and two numbers are equal exactly when
  they print alike (\<open>-0\<close> prints as \<open>0\<close>). Strings are lists of 8-bit code units. An
  object keeps its fields in the order \<open>Object.keys\<close> lists them. \<open>JFun name\<close> is a
  built-in function: the service meets one only when it reads an inherited member of a
  plain object.
\<close>

datatype jsval =
    JUndefined
  | JNull
  | JBool bool
  | JNum string
  | JStr string
  | JArr "jsval list"
  | JObj "(string \<times> jsval) list"
  | JFun string

type_synonym row = "(string \<times> jsval) list"

text \<open>\<open>!v\<close> is \<open>\<not> truthy v\<close>. The falsy numbers are \<open>0\<close>, \<open>-0\<close> and \<open>NaN\<close>.\<close>

fun truthy :: "jsval \<Rightarrow> bool" where
  "truthy JUndefined = False"
| "truthy JNull = False"
| "truthy (JBool b) = b"
| "truthy (JNum n) = (n \<noteq> ''0'' \<and> n \<noteq> ''NaN'')"
| "truthy (JStr s) = (s \<noteq> [])"
| "truthy (JArr xs) = True"
| "truthy (JObj fs) = True"
| "truthy (JFun f) = True"

text \<open>\<open>a || b\<close> and \<open>a ?? b\<close>.\<close>

definition js_or :: "jsval \<Rightarrow> jsval \<Rightarrow> jsval" where
  "js_or a b = (if truthy a then a else b)"

definition js_nullish :: "jsval \<Rightarrow> jsval \<Rightarrow> jsval" where
  "js_nullish a b = (if a = JUndefined \<or> a = JNull then b else a)"

text \<open>
  The length of a string or of an array as a number: a natural number below
  \<open>2^32\<close>, which prints in decimal.
\<close>

definition digit_char :: "nat \<Rightarrow> char" where
  "digit_char n = ''0123456789'' ! n"

fun show_nat :: "nat \<Rightarrow> string" where
  "show_nat n =
     (if n < 10 then [digit_char n]
      else show_nat (n div 10) @ [digit_char (n mod 10)])"

definition js_length :: "nat \<Rightarrow> jsval" where
  "js_length n = JNum (show_nat n)"

fun join_with :: "string \<Rightarrow> string list \<Rightarrow> string" where
  "join_with sep [] = []"
| "join_with sep [x] = x"
| "join_with sep (x # y # ys) = x @ sep @ join_with sep (y # ys)"

text \<open>
  The members every plain object inherits from \<open>Object.prototype\<close>. All are
  functions but \<open>__proto__\<close>, which reads as \<open>Object.prototype\<close> itself: an object
  without enumerable fields.
\<close>

definition prototype_functions :: "string list" where
  "prototype_functions =
     [''constructor'', ''__defineGetter__'', ''__defineSetter__'', ''hasOwnProperty'',
      ''__lookupGetter__'', ''__lookupSetter__'', ''isPrototypeOf'',
      ''propertyIsEnumerable'', ''toString'', ''valueOf'', ''toLocaleString'']"

definition inherited :: "string \<Rightarrow> jsval" where
  "inherited name =
     (if name = ''constructor'' then JFun ''Object''
      else if name \<in> set prototype_functions then JFun name
      else if name = ''__proto__'' then JObj []
      else JUndefined)"

text \<open>\<open>o[name]\<close> on a plain object with the own fields \<open>fs\<close>.\<close>

definition member :: "row \<Rightarrow> string \<Rightarrow> jsval" where
  "member fs name = (case map_of fs name of Some v \<Rightarrow> v | None \<Rightarrow> inherited name)"

text \<open>
  What a built-in of \<open>Object.prototype\<close> answers when it is called without arguments
  on a plain object with the own fields \<open>fs\<close>: a primitive (given by its text), an
  object, or a thrown error. \<open>hasOwnProperty()\<close> and \<open>propertyIsEnumerable()\<close> look
  for the key \<open>undefined\<close>; \<open>__defineGetter__()\<close> and \<open>__defineSetter__()\<close> throw
  for want of a function; \<open>valueOf()\<close> answers the object and \<open>Object()\<close> a new one.
\<close>

datatype prim = Prim string | NotPrim | Throws

definition native_call :: "row \<Rightarrow> string \<Rightarrow> prim" where
  "native_call fs n =
     (if n = ''toString'' then Prim ''[object Object]''
      else if n = ''valueOf'' \<or> n = ''Object'' then NotPrim
      else if n = ''hasOwnProperty'' \<or> n = ''propertyIsEnumerable''
        then Prim (if map_of fs ''undefined'' = None then ''false'' else ''true'')
      else if n = ''isPrototypeOf'' then Prim ''false''
      else if n = ''__lookupGetter__'' \<or> n = ''__lookupSetter__'' then Prim ''undefined''
      else Throws)"

text \<open>
  One step of \<open>OrdinaryToPrimitive\<close>: a member that is no function is passed over,
  one that is a function is called. \<open>toLocaleString()\<close> calls \<open>this.toString()\<close>,
  which throws when that member is no function and never ends (a \<open>RangeError\<close>) when
  it is \<open>toLocaleString\<close> again.
\<close>

definition method_call :: "row \<Rightarrow> jsval \<Rightarrow> prim" where
  "method_call fs m =
     (case m of
        JFun n \<Rightarrow>
          if n = ''toLocaleString'' then
            (case member fs ''toString'' of
               JFun k \<Rightarrow> if k = ''toLocaleString'' then Throws else native_call fs k
             | _ \<Rightarrow> Throws)
          else native_call fs n
      | _ \<Rightarrow> NotPrim)"

text \<open>
  \<open>String(o)\<close> of a plain object: \<open>toString\<close>, then \<open>valueOf\<close>, and a
  \<open>TypeError\<close> (\<open>None\<close>) when neither answers a primitive. An object parsed from
  JSON holds no function, so it prints as \<open>[object Object]\<close> unless it has a field
  named \<open>toString\<close> of its own, and then it throws.
\<close>

definition object_to_String :: "row \<Rightarrow> string option" where
  "object_to_String fs =
     (case method_call fs (member fs ''toString'') of
        Prim s \<Rightarrow> Some s
      | Throws \<Rightarrow> None
      | NotPrim \<Rightarrow>
          (case method_call fs (member fs ''valueOf'') of
             Prim s \<Rightarrow> Some s
           | _ \<Rightarrow> None))"

text \<open>
  \<open>String(v)\<close>, which is also what a template literal \<open>`${v}`\<close> applies; \<open>None\<close>
  is a thrown \<open>TypeError\<close>. An array joins its elements with commas (\<open>null\<close> and
  \<open>undefined\<close> elements print as nothing) and throws when an element does.
\<close>

fun to_String :: "jsval \<Rightarrow> string option"
  and to_Strings :: "jsval list \<Rightarrow> string list option" where
  "to_String JUndefined = Some ''undefined''"
| "to_String JNull = Some ''null''"
| "to_String (JBool b) = Some (if b then ''true'' else ''false'')"
| "to_String (JNum n) = Some n"
| "to_String (JStr s) = Some s"
| "to_String (JArr xs) = map_option (join_with '','') (to_Strings xs)"
| "to_String (JObj fs) = object_to_String fs"
| "to_String (JFun f) = Some (''function '' @ f @ ''() { [native code] }'')"
| "to_Strings [] = Some []"
| "to_Strings (v # vs) =
     (case (if v = JNull \<or> v = JUndefined then Some [] else to_String v) of
        None \<Rightarrow> None
      | Some s \<Rightarrow> map_option ((#) s) (to_Strings vs))"

text \<open>
  Property reads with a fixed name: \<open>r.name\<close> on a row, \<open>v?.name\<close> on any
  value. None of the names the service reads is a member of \<open>Object.prototype\<close>, and
  none is \<open>length\<close>; a function has a \<open>name\<close>.
\<close>

definition fld :: "row \<Rightarrow> string \<Rightarrow> jsval" where
  "fld r name = (case map_of r name of None \<Rightarrow> JUndefined | Some v \<Rightarrow> v)"

definition opt_fld :: "row option \<Rightarrow> string \<Rightarrow> jsval" where
  "opt_fld m name = (case m of None \<Rightarrow> JUndefined | Some r \<Rightarrow> fld r name)"

definition get_prop :: "jsval \<Rightarrow> string \<Rightarrow> jsval" where
  "get_prop v name =
     (case v of
        JObj fs \<Rightarrow> fld fs name
      | JFun f \<Rightarrow> if name = ''name'' then JStr f else JUndefined
      | _ \<Rightarrow> JUndefined)"

text \<open>
  The order of the keys of an object: the array indices (\<open>0\<close>, \<open>1\<close>, ... below
  \<open>2^32 - 1\<close>, written without a leading zero) in ascending order, then the other
  keys in the order they were added.
\<close>

definition digit_val :: "char \<Rightarrow> nat" where
  "digit_val c = of_char c - 48"

definition decimal :: "string \<Rightarrow> nat" where
  "decimal s = foldl (\<lambda>n c. 10 * n + digit_val c) 0 s"

definition index_key :: "string \<Rightarrow> nat option" where
  "index_key s =
     (if s \<noteq> [] \<and> list_all (\<lambda>c. c \<in> set ''0123456789'') s \<and>
         (length s = 1 \<or> hd s \<noteq> CHR ''0'') \<and> length s \<le> 10 \<and> decimal s < 4294967295
      then Some (decimal s) else None)"

definition js_order :: "row \<Rightarrow> row" where
  "js_order r =
     sort_key (\<lambda>kv. the (index_key (fst kv))) (filter (\<lambda>kv. index_key (fst kv) \<noteq> None) r)
     @ filter (\<lambda>kv. index_key (fst kv) = None) r"

text \<open>
  An object literal: a key written twice keeps its first position and its last value.
\<close>

definition obj :: "(string \<times> jsval) list \<Rightarrow> row" where
  "obj kvs = js_order (foldl (\<lambda>r kv. AList.update (fst kv) (snd kv) r) [] kvs)"

text \<open>\<open>...v\<close> inside an object literal: the own enumerable fields of \<open>v\<close>.\<close>

definition spread :: "jsval \<Rightarrow> row" where
  "spread v =
     (case v of
        JObj fs \<Rightarrow> fs
      | JArr xs \<Rightarrow> zip (map show_nat [0..<length xs]) xs
      | JStr s \<Rightarrow> zip (map show_nat [0..<length s]) (map (\<lambda>c. JStr [c]) s)
      | _ \<Rightarrow> [])"

text \<open>\<open>String.prototype.trim\<close> on code units below 256.\<close>

definition js_whitespace :: "char \<Rightarrow> bool" where
  "js_whitespace c = ((of_char c :: nat) \<in> {9, 10, 11, 12, 13, 32, 160})"

definition trim :: "string \<Rightarrow> string" where
  "trim s = rev (dropWhile js_whitespace (rev (dropWhile js_whitespace s)))"

section \<open>Configuration and host functions\<close>

record config =
  CLIENT_ID :: string
  SECRET_KEY :: string
  API_URL :: string
  CALLBACK_URL :: string
  REDIRECT_URL :: string
  DEFAULT_LANGUAGE :: string
  LOCALE_MAP :: "(string \<times> string) list"
  PER_MINUTE_LIMIT :: int

definition CONFIG :: config where
  "CONFIG = \<lparr> CLIENT_ID = '''', SECRET_KEY = '''',
     API_URL = ''https://api.shuftipro.com/'', CALLBACK_URL = '''', REDIRECT_URL = '''',
     DEFAULT_LANGUAGE = ''en'',
     LOCALE_MAP = [(''en'', ''en''), (''en-AU'', ''en''), (''en-GB'', ''en''),
       (''en-US'', ''en''), (''zh'', ''zh''), (''zh-CN'', ''zh''), (''zh-TW'', ''zh''),
       (''ja'', ''ja''), (''ko'', ''ko''), (''tl'', ''tl''), (''fr'', ''fr''),
       (''de'', ''de''), (''es'', ''es''), (''it'', ''it''), (''pt'', ''pt''),
       (''ru'', ''ru'')],
     PER_MINUTE_LIMIT = 60 \<rparr>"

text \<open>
  The HTTP response of the provider, as \<open>fetch\<close> hands it over; \<open>res_status\<close> is
  the text of the status number.
\<close>

record response =
  res_ok :: bool
  res_status :: string
  headers_get :: "string \<Rightarrow> string option"
  res_text :: string

text \<open>
  The functions of the platform the service calls. \<open>sha256_hex x\<close> stands for
  \<open>crypto.createHash("sha256").update(x, "utf8").digest("hex")\<close>; \<open>JSON_parse\<close>
  answers \<open>None\<close> where \<open>JSON.parse\<close> throws; \<open>fetch\<close> takes the URL, the
  \<open>Authorization\<close> header and the body, and answers \<open>None\<close> on a network failure
  or a timeout; \<open>putItem_rejects\<close> tells the rows whose write the store refuses, so
  that the awaited \<open>ScyllaDb.putItem\<close> throws.
\<close>

record host =
  sha256_hex :: "string \<Rightarrow> string"
  JSON_parse :: "string \<Rightarrow> jsval option"
  JSON_stringify :: "jsval \<Rightarrow> string"
  base64 :: "string \<Rightarrow> string"
  fetch :: "string \<Rightarrow> string \<Rightarrow> string \<Rightarrow> response option"
  putItem_rejects :: "row \<Rightarrow> bool"

datatype kyc_error =
    ValidationError string
  | TypeError
  | NetworkError
  | InvalidJSON
  | InvalidSignature
  | StoreError

section \<open>Signature codec\<close>

text \<open>\<open>signatureFor(raw, secret)\<close> of the helper module.\<close>

definition signatureFor :: "host \<Rightarrow> jsval \<Rightarrow> string \<Rightarrow> kyc_error + string" where
  "signatureFor h raw secret =
     (let inner = sha256_hex h secret
      in case to_String raw of
           None \<Rightarrow> Inl TypeError
         | Some body \<Rightarrow> Inr (sha256_hex h (body @ inner)))"

text \<open>
  \<open>verifyShuftiSignature(rawBodyString, signatureHeaderValue)\<close>. \<open>Inl TypeError\<close>
  is the error \<open>String(rawBodyString)\<close> or \<open>String(signatureHeaderValue)\<close> throws.
\<close>

definition verifyShuftiSignature ::
    "host \<Rightarrow> config \<Rightarrow> jsval \<Rightarrow> jsval \<Rightarrow> kyc_error + bool" where
  "verifyShuftiSignature h cfg rawBodyString signatureHeaderValue =
     (if \<not> truthy rawBodyString \<or> \<not> truthy signatureHeaderValue then Inr False
      else
        let inner = sha256_hex h (SECRET_KEY cfg)
        in case to_String rawBodyString of
             None \<Rightarrow> Inl TypeError
           | Some body \<Rightarrow>
               let computed = sha256_hex h (body @ inner)
               in case to_String signatureHeaderValue of
                    None \<Rightarrow> Inl TypeError
                  | Some tag \<Rightarrow> Inr (computed = trim tag))"

text \<open>What \<open>digest("hex")\<close> of SHA-256 answers: 64 lower-case hexadecimal digits.\<close>

definition hex_digest :: "string \<Rightarrow> bool" where
  "hex_digest s = (length s = 64 \<and> set s \<subseteq> set ''0123456789abcdef'')"

section \<open>Store, log and error sinks\<close>

text \<open>\<open>CONFIG.KEYS\<close>: the key schema, and the events of the provider.\<close>

definition KEYS_pk :: string where "KEYS_pk = ''pk''"
definition KEYS_sk :: string where "KEYS_sk = ''sk''"
definition gsi_meta_pk :: string where "gsi_meta_pk = ''ppk''"
definition gsi_meta_sk :: string where "gsi_meta_sk = ''created_at''"

definition VERIFICATION_ACCEPTED :: string where
  "VERIFICATION_ACCEPTED = ''verification.accepted''"

definition VERIFICATION_STATUS_CHANGED :: string where
  "VERIFICATION_STATUS_CHANGED = ''verification.status.changed''"

definition ACTIVE_EVENTS :: "string list" where
  "ACTIVE_EVENTS = [''request.pending'', ''request.received'', ''review.pending'',
     VERIFICATION_STATUS_CHANGED]"

definition ACTIVE_EVENTS_has :: "jsval \<Rightarrow> bool" where
  "ACTIVE_EVENTS_has v = (case v of JStr s \<Rightarrow> s \<in> set ACTIVE_EVENTS | _ \<Rightarrow> False)"

text \<open>
  Everything the service changes: the table of the store, the calls of \<open>putItem\<close>
  that were carried out, in their order, the timestamp window of the rate guard, and
  what went to the logger and to the error sink.
\<close>

record world =
  table :: "row list"
  puts :: "row list"
  LOCAL_REQUEST_TIMESTAMPS :: "int list"
  logs :: "row list"
  errors :: "(string \<times> jsval) list"

text \<open>
  Modelled from the spec: the table of the Ledger Store Adapter (\<open>utils/ScyllaDb.js\<close>
  is not among the sources), a list of rows keyed by their \<open>pk\<close> and \<open>sk\<close>. The
  rows stay in the order of their first insertion, as in the in-memory adapter of the
  usage harness; the table a theorem speaks about is any list, so no order is assumed.
\<close>

definition row_key :: "row \<Rightarrow> jsval \<times> jsval" where
  "row_key r = (fld r KEYS_pk, fld r KEYS_sk)"

fun upsert :: "row \<Rightarrow> row list \<Rightarrow> row list" where
  "upsert r [] = [r]"
| "upsert r (x # xs) = (if row_key x = row_key r then r # xs else x # upsert r xs)"

text \<open>
  Modelled from the spec: \<open>put(table, record)\<close> of the Ledger Store Adapter, which
  succeeds or fails. A write that succeeds is an upsert by the record's own key fields
  and is recorded in \<open>puts\<close>; one that fails (\<open>None\<close>) leaves the store as it was
  and makes the awaiting caller throw.
\<close>

definition putItem :: "host \<Rightarrow> row \<Rightarrow> world \<Rightarrow> world option" where
  "putItem h item w =
     (if putItem_rejects h item then None
      else Some (w\<lparr> table := upsert item (table w), puts := puts w @ [item] \<rparr>))"

text \<open>
  Modelled from the spec: \<open>get(table, key)\<close> of the Ledger Store Adapter, a point
  lookup that answers the record or nothing.
\<close>

definition getItem :: "world \<Rightarrow> jsval \<Rightarrow> jsval \<Rightarrow> row option" where
  "getItem w pk sk = find (\<lambda>r. row_key r = (pk, sk)) (table w)"

text \<open>
  Modelled from the spec: \<open>query(table, keyCondition, boundValues, options)\<close> of the
  Ledger Store Adapter, for the key conditions the service uses (\<open>pk = :pk\<close> with a
  limit, \<open>ppk = :ref\<close> on the secondary index).
\<close>

definition query :: "world \<Rightarrow> string \<Rightarrow> jsval \<Rightarrow> nat option \<Rightarrow> row list" where
  "query w attr val limit =
     (let results = filter (\<lambda>it. fld it attr = val) (table w)
      in case limit of None \<Rightarrow> results | Some n \<Rightarrow> take n results)"

text \<open>
  Modelled from the spec: \<open>Logger.writeLog\<close>, the structured logging sink
  (\<open>utils/index.js\<close> is not among the sources); each call is recorded.
\<close>

definition writeLog :: "row \<Rightarrow> world \<Rightarrow> world" where
  "writeLog entry w = w\<lparr> logs := logs w @ [entry] \<rparr>"

text \<open>
  Modelled from the spec: \<open>ErrorHandler.add_error\<close>, the error-reporting sink
  (\<open>utils/index.js\<close> is not among the sources); each call is recorded.
\<close>

definition add_error :: "string \<Rightarrow> jsval \<Rightarrow> world \<Rightarrow> world" where
  "add_error message data w = w\<lparr> errors := errors w @ [(message, data)] \<rparr>"

definition log_entry :: "string \<Rightarrow> string \<Rightarrow> string \<Rightarrow> row \<Rightarrow> bool \<Rightarrow> row" where
  "log_entry flag action message data critical =
     obj ([(''flag'', JStr flag), (''action'', JStr action), (''message'', JStr message),
           (''data'', JObj data)] @ (if critical then [(''critical'', JBool True)] else []))"

section \<open>Helpers of the service\<close>

text \<open>
  \<open>generateReference()\<close>; \<open>now\<close> is the text of \<open>Date.now()\<close> and
  \<open>rnd\<close> the text of \<open>Math.floor(Math.random() * 100000)\<close>.
\<close>

definition generateReference :: "string \<Rightarrow> string \<Rightarrow> string" where
  "generateReference now rnd = ''ref-'' @ now @ ''-'' @ rnd"

text \<open>
  \<open>CONFIG.LOCALE_MAP[key]\<close>: the map is a plain object, so a key it does not hold
  is looked up in \<open>Object.prototype\<close>.
\<close>

definition locale_lookup :: "config \<Rightarrow> string \<Rightarrow> jsval" where
  "locale_lookup cfg k = member (map (\<lambda>kv. (fst kv, JStr (snd kv))) (LOCALE_MAP cfg)) k"

definition normalizeLocaleToLanguage :: "config \<Rightarrow> jsval \<Rightarrow> kyc_error + jsval" where
  "normalizeLocaleToLanguage cfg appLocale =
     (if \<not> truthy appLocale then Inr (JStr (DEFAULT_LANGUAGE cfg))
      else
        case to_String appLocale of
          None \<Rightarrow> Inl TypeError
        | Some s \<Rightarrow>
            let k = trim s
            in Inr (js_or (locale_lookup cfg k)
                     (js_or (locale_lookup cfg (takeWhile (\<lambda>c. c \<noteq> CHR ''-'') k))
                        (JStr (DEFAULT_LANGUAGE cfg)))))"

text \<open>\<open>pickMeta(items)\<close>: the first row of type \<open>meta\<close>, or \<open>null\<close>.\<close>

definition pickMeta :: "row list \<Rightarrow> row option" where
  "pickMeta items = find (\<lambda>it. fld it ''type'' = JStr ''meta'') items"

text \<open>
  The lookup that \<open>createVerificationSession\<close>, \<open>handleWebhook\<close>, \<open>isUserValidated\<close>
  and \<open>updateRecordStatus\<close> each spell out: query the secondary index by reference,
  reverse the rows, and take \<open>pickMeta(latestByRef) || latestByRef[0] || null\<close>.
\<close>

definition metaByRef :: "world \<Rightarrow> jsval \<Rightarrow> row option" where
  "metaByRef w ref =
     (let byRef = query w gsi_meta_pk ref None;
          latestByRef = rev byRef
      in case pickMeta latestByRef of
           Some m \<Rightarrow> Some m
         | None \<Rightarrow> (case latestByRef of [] \<Rightarrow> None | x # xs \<Rightarrow> Some x))"

section \<open>Rate guard\<close>

text \<open>The \<open>while\<close> loop that shifts old timestamps off the front of the window.\<close>

fun shift_old :: "int \<Rightarrow> int list \<Rightarrow> int list" where
  "shift_old now [] = []"
| "shift_old now (t # ts) = (if now - t > 60000 then shift_old now ts else t # ts)"

text \<open>The advisory record and the advisory log event of the rate guard.\<close>

definition rate_limit_row :: "string \<Rightarrow> string \<Rightarrow> string \<Rightarrow> nat \<Rightarrow> row" where
  "rate_limit_row contextLabel iso1 iso2 count =
     obj [(''pk'', JStr ''system_shufti''),
          (''sk'', JStr iso1),
          (''ppk'', JStr ''rate_limit''),
          (''created_at'', JStr iso2),
          (''type'', JStr ''rate_limit''),
          (''context'', JStr contextLabel),
          (''countInLastMinute'', js_length count)]"

definition breach_entry :: "string \<Rightarrow> nat \<Rightarrow> row" where
  "breach_entry contextLabel count =
     log_entry ''kyc_rate_limit'' ''breach'' ''Local per-minute threshold breached''
       (obj [(''contextLabel'', JStr contextLabel), (''count'', js_length count)]) True"

text \<open>
  \<open>registerLocalRateAndMaybeAlert(contextLabel)\<close>. \<open>now\<close> is what \<open>Date.now()\<close>
  answers, \<open>iso1\<close> and \<open>iso2\<close> what the two \<open>new Date().toISOString()\<close> of the alert
  row answer. The write of the alert row is awaited and not guarded: when the store
  refuses it, the guard throws.
\<close>

definition registerLocalRateAndMaybeAlert ::
    "host \<Rightarrow> config \<Rightarrow> string \<Rightarrow> int \<Rightarrow> string \<Rightarrow> string \<Rightarrow> world
      \<Rightarrow> (kyc_error + unit) \<times> world" where
  "registerLocalRateAndMaybeAlert h cfg contextLabel now iso1 iso2 w =
     (let w1 = w\<lparr> LOCAL_REQUEST_TIMESTAMPS :=
                  shift_old now (LOCAL_REQUEST_TIMESTAMPS w @ [now]) \<rparr>;
          count = length (LOCAL_REQUEST_TIMESTAMPS w1)
      in if int count > PER_MINUTE_LIMIT cfg then
           let w2 = writeLog (breach_entry contextLabel count) w1
           in case putItem h (rate_limit_row contextLabel iso1 iso2 count) w2 of
                None \<Rightarrow> (Inl StoreError, w2)
              | Some w3 \<Rightarrow> (Inr (), w3)
         else (Inr (), w1))"

text \<open>
  A run of accounted calls, each with its own clock readings: the state after the last
  of them.
\<close>

fun guard_calls ::
    "host \<Rightarrow> config \<Rightarrow> string \<Rightarrow> (int \<times> string \<times> string) list \<Rightarrow> world \<Rightarrow> world" where
  "guard_calls h cfg lbl [] w = w"
| "guard_calls h cfg lbl ((now, iso1, iso2) # cs) w =
     guard_calls h cfg lbl cs (snd (registerLocalRateAndMaybeAlert h cfg lbl now iso1 iso2 w))"

section \<open>Session resolver and session creator\<close>

text \<open>
  Modelled from the spec: input validation (\<open>SafeUtils.sanitizeValidate\<close> is not among
  the sources). A required field that is missing or empty fails with a validation error,
  and so does a value that is not of the declared type: all five fields of the service
  are declared \<open>string\<close> or \<open>email\<close>, so a value that passes is a string, or
  \<open>null\<close> where the field is optional. A missing optional value takes its default; the
  loop is the one of the stand-in of the usage harness,
  \<open>v = d.value ?? d.default ?? null\<close>.
\<close>

definition is_string :: "jsval \<Rightarrow> bool" where
  "is_string v = (case v of JStr s \<Rightarrow> True | _ \<Rightarrow> False)"

fun sanitizeValidate :: "(string \<times> jsval \<times> bool \<times> jsval) list \<Rightarrow> row \<Rightarrow> kyc_error + row" where
  "sanitizeValidate [] out = Inr out"
| "sanitizeValidate ((k, v0, required, dflt) # defs) out =
     (let v = js_nullish (js_nullish v0 dflt) JNull
      in if required \<and> (v = JNull \<or> v = JUndefined \<or> v = JStr [])
         then Inl (ValidationError k)
         else if v \<noteq> JNull \<and> \<not> is_string v
         then Inl (ValidationError k)
         else sanitizeValidate defs (AList.update k v out))"

record session_args =
  userId :: jsval
  userEmail :: jsval
  appLocale :: jsval
  userCountry :: jsval
  verificationMode :: jsval
  documentConfig :: jsval

text \<open>What the caller gets back when an attempt is reused.\<close>

record reuse =
  reuse_reference :: jsval
  reuse_status :: jsval
  reuse_verificationUrl :: jsval

datatype session_result =
    AlreadyValidated reuse
  | AlreadyHasActive reuse
  | Created string jsval

datatype scan_result = Accepted reuse | Scanned "reuse option"

text \<open>The status and the URL the resolver derives for one timeline entry.\<close>

definition derived_status :: "world \<Rightarrow> row \<Rightarrow> jsval" where
  "derived_status w item =
     js_or (opt_fld (metaByRef w (fld item ''reference'')) ''status'')
       (js_or (fld item ''event'') (JStr ''unknown''))"

definition derived_url :: "world \<Rightarrow> row \<Rightarrow> jsval" where
  "derived_url w item =
     js_nullish (opt_fld (metaByRef w (fld item ''reference'')) ''verificationUrl'')
       (js_nullish (fld item ''verificationUrl'') JNull)"

definition reuse_of :: "world \<Rightarrow> row \<Rightarrow> reuse" where
  "reuse_of w item =
     \<lparr> reuse_reference = fld item ''reference'', reuse_status = derived_status w item,
       reuse_verificationUrl = derived_url w item \<rparr>"

text \<open>
  The \<open>for\<close> loop over \<open>sortedTimeline\<close>, with \<open>activeCandidate\<close> as its second
  argument. The loop only reads the store.
\<close>

fun scanTimeline :: "world \<Rightarrow> row list \<Rightarrow> reuse option \<Rightarrow> scan_result" where
  "scanTimeline w [] activeCandidate = Scanned activeCandidate"
| "scanTimeline w (item # items) activeCandidate =
     (if fld item ''type'' \<noteq> JStr ''verification_request''
      then scanTimeline w items activeCandidate
      else if derived_status w item = JStr VERIFICATION_ACCEPTED
      then Accepted (reuse_of w item)
      else if activeCandidate = None \<and> ACTIVE_EVENTS_has (derived_status w item)
      then scanTimeline w items (Some (reuse_of w item))
      else scanTimeline w items activeCandidate)"

text \<open>
  The request payload. Reading a property of \<open>documentConfig\<close> throws when it is
  \<open>null\<close> (the parameter default \<open>{}\<close> replaces \<open>undefined\<close> only); this is
  the check of \<open>build_payload\<close>.
\<close>

definition payload_of :: "config \<Rightarrow> row \<Rightarrow> string \<Rightarrow> jsval \<Rightarrow> jsval \<Rightarrow> row" where
  "payload_of cfg clean reference language dc =
     obj (
        [(''reference'', JStr reference),
         (''email'', fld clean ''userEmail''),
         (''country'', fld clean ''userCountry''),
         (''language'', language),
         (''verification_mode'', fld clean ''verificationMode''),
         (''allow_offline'', JStr ''1''),
         (''allow_online'', JStr ''1''),
         (''show_privacy_policy'', JStr ''0''),
         (''show_results'', JStr ''1''),
         (''show_consent'', JStr ''0''),
         (''show_feedback_form'', JStr ''0''),
         (''manual_review'', JStr ''0'')]
        @ (if CALLBACK_URL cfg \<noteq> [] then [(''callback_url'', JStr (CALLBACK_URL cfg))] else [])
        @ (if REDIRECT_URL cfg \<noteq> [] then [(''redirect_url'', JStr (REDIRECT_URL cfg))] else [])
        @ [(''document'', JObj (obj
             [(''name'', js_nullish (get_prop dc ''name'') (JStr [])),
              (''dob'', js_nullish (get_prop dc ''dob'') (JStr [])),
              (''fetch_enhanced_data'',
                 js_nullish (get_prop dc ''fetch_enhanced_data'') (JStr ''1'')),
              (''supported_types'',
                 js_nullish (get_prop dc ''supported_types'')
                   (JArr [JStr ''id_card'', JStr ''driving_license'', JStr ''passport''])),
              (''verification_instructions'', JObj (obj (
                 [(''allow_paper_based'', JStr ''1''),
                  (''allow_photocopy'', JStr ''1''),
                  (''allow_colorcopy'', JStr ''1''),
                  (''allow_black_and_white'', JStr ''1''),
                  (''allow_laminated'', JStr ''1''),
                  (''allow_screenshot'', JStr ''1''),
                  (''allow_cropped'', JStr ''1''),
                  (''allow_scanned'', JStr ''1''),
                  (''allow_e_document'', JStr ''1''),
                  (''allow_handwritten_document'', JStr ''1'')]
                 @ spread (js_or (get_prop dc ''verification_instructions'') (JObj [])))))]))])"

definition build_payload :: "config \<Rightarrow> row \<Rightarrow> string \<Rightarrow> jsval \<Rightarrow> jsval \<Rightarrow> kyc_error + row" where
  "build_payload cfg clean reference language dc =
     (if dc = JNull then Inl TypeError
      else Inr (payload_of cfg clean reference language dc))"

text \<open>
  \<open>res.headers.get("signature") || res.headers.get("Signature") || ""\<close>.
\<close>

definition signature_header :: "response \<Rightarrow> string" where
  "signature_header res =
     (case headers_get res ''signature'' of
        Some s \<Rightarrow> if s \<noteq> [] then s
                  else (case headers_get res ''Signature'' of Some t \<Rightarrow> t | None \<Rightarrow> [])
      | None \<Rightarrow> (case headers_get res ''Signature'' of Some t \<Rightarrow> t | None \<Rightarrow> []))"

text \<open>
  The two rows a new attempt is persisted as; \<open>uid\<close> is the text of
  \<open>clean.userId\<close> in the template literal of the key.
\<close>

definition verification_request_row ::
    "row \<Rightarrow> string \<Rightarrow> string \<Rightarrow> string \<Rightarrow> jsval \<Rightarrow> jsval \<Rightarrow> row \<Rightarrow> jsval \<Rightarrow> jsval
      \<Rightarrow> row" where
  "verification_request_row clean uid reference created_at event verificationUrl payload
      parsed language =
     obj [(KEYS_pk, JStr (''user_'' @ uid)),
          (KEYS_sk, JStr created_at),
          (gsi_meta_pk, JStr reference),
          (gsi_meta_sk, JStr created_at),
          (''type'', JStr ''verification_request''),
          (''userId'', fld clean ''userId''),
          (''reference'', JStr reference),
          (''event'', event),
          (''verificationUrl'', verificationUrl),
          (''requestPayload'', JObj payload),
          (''responsePayload'', parsed),
          (''language'', language),
          (''created_at'', JStr created_at)]"

definition new_meta_row ::
    "row \<Rightarrow> string \<Rightarrow> string \<Rightarrow> jsval \<Rightarrow> jsval \<Rightarrow> jsval \<Rightarrow> row" where
  "new_meta_row clean reference created_at event verificationUrl language =
     obj [(KEYS_pk, JStr (''meta_'' @ reference)),
          (KEYS_sk, JStr ''meta''),
          (gsi_meta_pk, JStr reference),
          (gsi_meta_sk, JStr created_at),
          (''type'', JStr ''meta''),
          (''userId'', fld clean ''userId''),
          (''reference'', JStr reference),
          (''status'', event),
          (''verificationUrl'', verificationUrl),
          (''language'', language),
          (''created_at'', JStr created_at)]"

text \<open>
  The last part of \<open>createVerificationSession\<close>, after the signature check: persist
  the attempt and its meta row, log, and answer. A write the store refuses ends the call
  where it stands.
\<close>

definition persistAttempt ::
    "host \<Rightarrow> row \<Rightarrow> string \<Rightarrow> jsval \<Rightarrow> string \<Rightarrow> row \<Rightarrow> jsval \<Rightarrow> world
      \<Rightarrow> (kyc_error + session_result) \<times> world" where
  "persistAttempt h clean reference language created_at payload parsed w1 =
     (let event = js_or (get_prop parsed ''event'') (JStr ''unknown'');
          verificationUrl = js_or (get_prop parsed ''verification_url'') JNull
      in case to_String (fld clean ''userId'') of
           None \<Rightarrow> (Inl TypeError, w1)
         | Some uid \<Rightarrow>
             (case putItem h
                     (verification_request_row clean uid reference created_at event
                        verificationUrl payload parsed language) w1 of
                None \<Rightarrow> (Inl StoreError, w1)
              | Some w2 \<Rightarrow>
                  (case putItem h
                          (new_meta_row clean reference created_at event verificationUrl
                             language) w2 of
                     None \<Rightarrow> (Inl StoreError, w2)
                   | Some w3 \<Rightarrow>
                       (Inr (Created reference verificationUrl),
                        writeLog
                          (log_entry ''kyc_request'' ''created''
                             ''New Shufti session created''
                             (obj [(''userId'', fld clean ''userId''),
                                   (''reference'', JStr reference),
                                   (''event'', event)])
                             False)
                          w3))))"

text \<open>
  The check of the HTTP status: a non-success status is reported and logged, and the
  call goes on.
\<close>

definition after_status_check :: "row \<Rightarrow> string \<Rightarrow> response \<Rightarrow> jsval \<Rightarrow> world \<Rightarrow> world" where
  "after_status_check clean reference res parsed w =
     (if \<not> res_ok res then
        writeLog
          (log_entry ''kyc_error'' ''non_200'' ''Shufti returned non-200''
             (obj [(''userId'', fld clean ''userId''), (''reference'', JStr reference),
                   (''status'', JNum (res_status res))])
             False)
          (add_error ''KYC response non-200''
             (JObj (obj [(''userId'', fld clean ''userId''), (''reference'', JStr reference),
                         (''status'', JNum (res_status res)), (''parsed'', parsed)]))
             w)
      else w)"

text \<open>
  The second half of \<open>createVerificationSession\<close>, from the response of the provider
  on: read the signature header and the body, parse, record a non-200, check the
  signature, persist.
\<close>

definition receiveResponse ::
    "host \<Rightarrow> config \<Rightarrow> row \<Rightarrow> string \<Rightarrow> jsval \<Rightarrow> string \<Rightarrow> row \<Rightarrow> response \<Rightarrow> world
      \<Rightarrow> (kyc_error + session_result) \<times> world" where
  "receiveResponse h cfg clean reference language created_at payload res w =
     (let signatureHeader = signature_header res;
          rawBody = res_text res
      in case (if rawBody \<noteq> [] then JSON_parse h rawBody else Some (JObj [])) of
           None \<Rightarrow>
             (Inl InvalidJSON,
              writeLog
                (log_entry ''kyc_error'' ''invalid_json'' ''Shufti returned invalid JSON''
                   (obj [(''userId'', fld clean ''userId''), (''reference'', JStr reference)])
                   True)
                (add_error ''KYC response invalid JSON''
                   (JObj (obj [(''userId'', fld clean ''userId''),
                               (''reference'', JStr reference),
                               (''snippet'', JStr (take 500 rawBody))]))
                   w))
         | Some parsed \<Rightarrow>
             let w1 = after_status_check clean reference res parsed w
             in case verifyShuftiSignature h cfg (JStr rawBody) (JStr signatureHeader) of
                  Inl e \<Rightarrow> (Inl e, w1)
                | Inr False \<Rightarrow>
                    (Inl InvalidSignature,
                     writeLog
                       (log_entry ''kyc_error'' ''invalid_signature''
                          ''Invalid signature in Shufti response''
                          (obj [(''userId'', fld clean ''userId''),
                                (''reference'', JStr reference)])
                          True)
                       (add_error ''KYC response signature invalid''
                          (JObj (obj [(''userId'', fld clean ''userId''),
                                      (''reference'', JStr reference)]))
                          w1))
                | Inr True \<Rightarrow>
                    persistAttempt h clean reference language created_at payload parsed w1)"

text \<open>
  What one call of \<open>createVerificationSession\<close> reads from the clock and the random
  generator: \<open>Date.now()\<close> and the two \<open>toISOString()\<close> of the rate guard, the
  texts of \<open>Date.now()\<close> and of \<open>Math.floor(Math.random() * 100000)\<close> in
  \<open>generateReference\<close>, and the \<open>created_at\<close> of the new rows.
\<close>

record create_env =
  guard_now :: int
  guard_iso1 :: string
  guard_iso2 :: string
  ref_now :: string
  ref_random :: string
  created_at_now :: string

text \<open>
  The first half of the creation: account the call, make the reference, the language
  and the payload, and call the provider. (The text of a network error, \<open>String(err)\<close>,
  is not modelled; the reports carry \<open>Error\<close> in its place.)
\<close>

definition createNewSession ::
    "host \<Rightarrow> config \<Rightarrow> create_env \<Rightarrow> row \<Rightarrow> jsval \<Rightarrow> world
      \<Rightarrow> (kyc_error + session_result) \<times> world" where
  "createNewSession h cfg env clean dc w =
     (case registerLocalRateAndMaybeAlert h cfg ''createVerificationSession''
             (guard_now env) (guard_iso1 env) (guard_iso2 env) w of
        (Inl e, w1) \<Rightarrow> (Inl e, w1)
      | (Inr u, w1) \<Rightarrow>
          let reference = generateReference (ref_now env) (ref_random env);
              created_at = created_at_now env
          in case normalizeLocaleToLanguage cfg
                    (js_or (fld clean ''appLocale'') (JStr (DEFAULT_LANGUAGE cfg))) of
               Inl e \<Rightarrow> (Inl e, w1)
             | Inr language \<Rightarrow>
                 (case build_payload cfg clean reference language dc of
                    Inl e \<Rightarrow> (Inl e, w1)
                  | Inr payload \<Rightarrow>
                      let w2 = writeLog
                                 (log_entry ''kyc_request'' ''create_new''
                                    ''Creating new Shufti session''
                                    (obj [(''userId'', fld clean ''userId''),
                                          (''reference'', JStr reference)])
                                    False)
                                 w1;
                          authHeader =
                            ''Basic '' @ base64 h (CLIENT_ID cfg @ '':'' @ SECRET_KEY cfg)
                      in case fetch h (API_URL cfg) authHeader
                                (JSON_stringify h (JObj payload)) of
                           None \<Rightarrow>
                             (Inl NetworkError,
                              writeLog
                                (log_entry ''kyc_error'' ''network_error''
                                   ''Network error contacting Shufti''
                                   (obj [(''userId'', fld clean ''userId''),
                                         (''reference'', JStr reference),
                                         (''error'', JStr ''Error'')])
                                   True)
                                (add_error ''KYC network error (createVerificationSession)''
                                   (JObj (obj [(''userId'', fld clean ''userId''),
                                               (''reference'', JStr reference),
                                               (''error'', JStr ''Error'')]))
                                   w2))
                         | Some res \<Rightarrow>
                             receiveResponse h cfg clean reference language created_at
                               payload res w2))"

text \<open>
  \<open>createVerificationSession\<close>: validate (the parameter defaults replace
  \<open>undefined\<close>), query up to 50 rows of the user's partition and reverse them, look
  for an attempt to reuse, else create. The key of the partition is the template literal
  \<open>`user_${clean.userId}`\<close>; the timeline is read once that key is made.
\<close>

definition validate_args :: "session_args \<Rightarrow> kyc_error + row" where
  "validate_args args =
     (let userCountry0 = (if userCountry args = JUndefined then JStr [] else userCountry args);
          verificationMode0 =
            (if verificationMode args = JUndefined then JStr ''any''
             else verificationMode args)
      in sanitizeValidate
           [(''userId'', userId args, True, JUndefined),
            (''userEmail'', userEmail args, True, JUndefined),
            (''appLocale'', js_nullish (appLocale args) JNull, False, JNull),
            (''userCountry'', js_nullish userCountry0 (JStr []), False, JStr []),
            (''verificationMode'', js_nullish verificationMode0 (JStr ''any''), False,
               JStr ''any'')]
           [])"

definition sortedTimeline :: "world \<Rightarrow> row \<Rightarrow> row list" where
  "sortedTimeline w clean =
     (case to_String (fld clean ''userId'') of
        None \<Rightarrow> []
      | Some uid \<Rightarrow>
          let timeline = query w KEYS_pk (JStr (''user_'' @ uid)) (Some 50)
          in rev timeline)"

definition createVerificationSession ::
    "host \<Rightarrow> config \<Rightarrow> create_env \<Rightarrow> session_args \<Rightarrow> world
      \<Rightarrow> (kyc_error + session_result) \<times> world" where
  "createVerificationSession h cfg env args w =
     (case validate_args args of
        Inl e \<Rightarrow> (Inl e, w)
      | Inr clean \<Rightarrow>
          (case to_String (fld clean ''userId'') of
             None \<Rightarrow> (Inl TypeError, w)
           | Some uid \<Rightarrow>
               (case scanTimeline w (sortedTimeline w clean) None of
                  Accepted r \<Rightarrow>
                    (Inr (AlreadyValidated r),
                     writeLog
                       (log_entry ''kyc_request'' ''reuse_accepted''
                          ''User already verified; returning accepted session''
                          (obj [(''userId'', fld clean ''userId''),
                                (''reference'', reuse_reference r)])
                          False)
                       w)
                | Scanned (Some activeCandidate) \<Rightarrow>
                    (Inr (AlreadyHasActive activeCandidate),
                     writeLog
                       (log_entry ''kyc_request'' ''reuse_active''
                          ''Active verification session exists; reusing''
                          (obj [(''userId'', fld clean ''userId''),
                                (''reference'', reuse_reference activeCandidate),
                                (''status'', reuse_status activeCandidate)])
                          False)
                       w)
                | Scanned None \<Rightarrow>
                    createNewSession h cfg env clean
                      (if documentConfig args = JUndefined then JObj [] else documentConfig args)
                      w)))"

section \<open>Webhook reconciler\<close>

datatype webhook_result = NotOk | Ok jsval jsval

text \<open>
  The two rows a webhook is persisted as; \<open>uid_text\<close> and \<open>ref_text\<close> are the texts
  of \<open>userId\<close> and of \<open>reference\<close> in the template literals of the keys.
\<close>

definition webhook_event_row ::
    "string \<Rightarrow> string \<Rightarrow> jsval \<Rightarrow> jsval \<Rightarrow> jsval \<Rightarrow> jsval \<Rightarrow> row" where
  "webhook_event_row created_at uid_text reference event uid payload =
     obj [(KEYS_pk, JStr (''user_'' @ uid_text)),
          (KEYS_sk, JStr created_at),
          (gsi_meta_pk, reference),
          (gsi_meta_sk, JStr created_at),
          (''type'', JStr ''webhook_event''),
          (''userId'', uid),
          (''reference'', reference),
          (''event'', event),
          (''webhookPayload'', payload),
          (''created_at'', JStr created_at)]"

definition webhook_meta_row ::
    "config \<Rightarrow> string \<Rightarrow> string \<Rightarrow> jsval \<Rightarrow> jsval \<Rightarrow> jsval \<Rightarrow> row option \<Rightarrow> row" where
  "webhook_meta_row cfg created_at ref_text reference event uid meta =
     obj [(KEYS_pk, JStr (''meta_'' @ ref_text)),
          (KEYS_sk, JStr ''meta''),
          (gsi_meta_pk, reference),
          (gsi_meta_sk, JStr created_at),
          (''type'', JStr ''meta''),
          (''userId'', uid),
          (''reference'', reference),
          (''status'', event),
          (''lastEvent'', event),
          (''lastEventAt'', JStr created_at),
          (''verificationUrl'', js_nullish (opt_fld meta ''verificationUrl'') JNull),
          (''language'', js_nullish (opt_fld meta ''language'') (JStr (DEFAULT_LANGUAGE cfg))),
          (''created_at'', js_nullish (opt_fld meta ''created_at'') (JStr created_at))]"

text \<open>
  The part of \<open>handleWebhook\<close> that follows the parsing of the body: resolve the meta
  row of the reference, write the webhook row and the meta row, log, and answer. The
  template literal of a key can throw, the one of the meta row after the webhook row is
  written; a write the store refuses ends the call where it stands.
\<close>

definition storeWebhook ::
    "host \<Rightarrow> config \<Rightarrow> string \<Rightarrow> jsval \<Rightarrow> world \<Rightarrow> (kyc_error + webhook_result) \<times> world" where
  "storeWebhook h cfg now payload w0 =
     (let reference = js_or (get_prop payload ''reference'') (JStr ''unknown'');
          event = js_or (get_prop payload ''event'') (JStr ''unknown'');
          meta = metaByRef w0 reference;
          uid = js_or (opt_fld meta ''userId'')
                  (js_or (get_prop payload ''user_id'') (JStr ''unknown''))
      in case to_String uid of
           None \<Rightarrow> (Inl TypeError, w0)
         | Some uid_text \<Rightarrow>
             (case putItem h (webhook_event_row now uid_text reference event uid payload) w0 of
                None \<Rightarrow> (Inl StoreError, w0)
              | Some w1 \<Rightarrow>
                  (case to_String reference of
                     None \<Rightarrow> (Inl TypeError, w1)
                   | Some ref_text \<Rightarrow>
                       (case putItem h
                               (webhook_meta_row cfg now ref_text reference event uid meta)
                               w1 of
                          None \<Rightarrow> (Inl StoreError, w1)
                        | Some w2 \<Rightarrow>
                            (Inr (Ok reference event),
                             writeLog
                               (log_entry ''kyc_webhook'' ''stored''
                                  ''Webhook stored and meta updated''
                                  (obj [(''userId'', uid), (''reference'', reference),
                                        (''event'', event)])
                                  False)
                               w2)))))"

text \<open>
  \<open>handleWebhook({ rawBodyString, signatureHeader })\<close>; \<open>now\<close> is what
  \<open>new Date().toISOString()\<close> answers. \<open>NotOk\<close> is \<open>{ ok: false }\<close>,
  \<open>Ok reference event\<close> is \<open>{ ok: true, reference, event }\<close>, \<open>Inl\<close> a thrown
  error. The first log event prints the body to take its length, outside any
  \<open>try\<close>.
\<close>

definition handleWebhook ::
    "host \<Rightarrow> config \<Rightarrow> string \<Rightarrow> jsval \<Rightarrow> jsval \<Rightarrow> world
      \<Rightarrow> (kyc_error + webhook_result) \<times> world" where
  "handleWebhook h cfg now rawBodyString signatureHeader w =
     (case (if truthy rawBodyString then map_option length (to_String rawBodyString)
            else Some 0) of
        None \<Rightarrow> (Inl TypeError, w)
      | Some bytes \<Rightarrow>
          let w0 = writeLog
                     (log_entry ''kyc_webhook'' ''received'' ''Webhook received''
                        (obj [(''bytes'', js_length bytes)]) False)
                     w
          in case verifyShuftiSignature h cfg rawBodyString signatureHeader of
               Inl e \<Rightarrow> (Inl e, w0)
             | Inr False \<Rightarrow>
                 (Inr NotOk,
                  writeLog
                    (log_entry ''kyc_error'' ''invalid_signature''
                       ''Invalid signature on webhook'' [] True)
                    (add_error ''KYC webhook signature invalid'' JUndefined w0))
             | Inr True \<Rightarrow>
                 (case to_String rawBodyString of
                    None \<Rightarrow> (Inl TypeError, w0)
                  | Some body \<Rightarrow>
                      (case JSON_parse h body of
                         None \<Rightarrow>
                           (Inr NotOk,
                            writeLog
                              (log_entry ''kyc_error'' ''invalid_json''
                                 ''Webhook JSON parse failed'' [] True)
                              (add_error ''KYC webhook invalid JSON''
                                 (JObj (obj [(''snippet'', JStr (take 500 body))]))
                                 w0))
                       | Some payload \<Rightarrow> storeWebhook h cfg now payload w0)))"

section \<open>Manual override\<close>

text \<open>The two rows \<open>updateRecordStatus\<close> writes.\<close>

definition status_meta_row ::
    "config \<Rightarrow> string \<Rightarrow> string \<Rightarrow> jsval \<Rightarrow> jsval \<Rightarrow> row \<Rightarrow> row" where
  "status_meta_row cfg now ref_text reference newStatus meta =
     obj [(KEYS_pk, JStr (''meta_'' @ ref_text)),
          (KEYS_sk, JStr ''meta''),
          (gsi_meta_pk, reference),
          (gsi_meta_sk, JStr now),
          (''type'', JStr ''meta''),
          (''userId'', fld meta ''userId''),
          (''reference'', reference),
          (''status'', newStatus),
          (''lastEvent'', newStatus),
          (''lastEventAt'', JStr now),
          (''verificationUrl'', js_nullish (fld meta ''verificationUrl'') JNull),
          (''language'', js_nullish (fld meta ''language'') (JStr (DEFAULT_LANGUAGE cfg))),
          (''created_at'', js_nullish (fld meta ''created_at'') (JStr now))]"

definition status_change_row :: "string \<Rightarrow> string \<Rightarrow> jsval \<Rightarrow> jsval \<Rightarrow> row \<Rightarrow> row" where
  "status_change_row now uid_text reference newStatus meta =
     obj [(KEYS_pk, JStr (''user_'' @ uid_text)),
          (KEYS_sk, JStr now),
          (gsi_meta_pk, reference),
          (gsi_meta_sk, JStr now),
          (''type'', JStr ''status_change''),
          (''userId'', fld meta ''userId''),
          (''reference'', reference),
          (''event'', JStr VERIFICATION_STATUS_CHANGED),
          (''newStatus'', newStatus),
          (''created_at'', JStr now)]"

text \<open>
  The lookup of \<open>updateRecordStatus\<close>: the secondary index first, then the point
  lookup by the key \<open>`meta_${reference}`\<close>, whose template literal can throw.
\<close>

definition metaByRefOrKey :: "world \<Rightarrow> jsval \<Rightarrow> kyc_error + row option" where
  "metaByRefOrKey w reference =
     (case metaByRef w reference of
        Some m \<Rightarrow> Inr (Some m)
      | None \<Rightarrow>
          (case to_String reference of
             None \<Rightarrow> Inl TypeError
           | Some ref_text \<Rightarrow> Inr (getItem w (JStr (''meta_'' @ ref_text)) (JStr ''meta''))))"

text \<open>
  \<open>updateRecordStatus(reference, newStatus)\<close>; \<open>now\<close> is what
  \<open>new Date().toISOString()\<close> answers, \<open>Inl\<close> a thrown error.
\<close>

definition updateRecordStatus ::
    "host \<Rightarrow> config \<Rightarrow> string \<Rightarrow> jsval \<Rightarrow> jsval \<Rightarrow> world \<Rightarrow> (kyc_error + bool) \<times> world" where
  "updateRecordStatus h cfg now reference newStatus w =
     (case metaByRefOrKey w reference of
        Inl e \<Rightarrow> (Inl e, w)
      | Inr None \<Rightarrow>
          (Inr False,
           writeLog
             (log_entry ''kyc_error'' ''meta_missing''
                ''Meta not found for reference during status update''
                (obj [(''reference'', reference), (''newStatus'', newStatus)])
                False)
             (add_error ''KYC updateRecordStatus: meta not found''
                (JObj (obj [(''reference'', reference), (''newStatus'', newStatus)]))
                w))
      | Inr (Some meta) \<Rightarrow>
          (case to_String reference of
             None \<Rightarrow> (Inl TypeError, w)
           | Some ref_text \<Rightarrow>
               (case putItem h (status_meta_row cfg now ref_text reference newStatus meta) w of
                  None \<Rightarrow> (Inl StoreError, w)
                | Some w1 \<Rightarrow>
                    (case to_String (fld meta ''userId'') of
                       None \<Rightarrow> (Inl TypeError, w1)
                     | Some uid_text \<Rightarrow>
                         (case putItem h
                                 (status_change_row now uid_text reference newStatus meta)
                                 w1 of
                            None \<Rightarrow> (Inl StoreError, w1)
                          | Some w2 \<Rightarrow>
                              (Inr True,
                               writeLog
                                 (log_entry ''kyc_status'' ''updated''
                                    ''Status updated + change logged''
                                    (obj [(''reference'', reference),
                                          (''newStatus'', newStatus),
                                          (''userId'', fld meta ''userId'')])
                                    False)
                                 w2))))))"

text \<open>
  The two kinds of timeline entries the resolver reacts to: a
  \<open>verification_request\<close> whose derived status is \<open>verification.accepted\<close>, and one
  whose derived status is in the ACTIVE set.
\<close>

definition accepted_entry :: "world \<Rightarrow> row \<Rightarrow> bool" where
  "accepted_entry w item =
     (fld item ''type'' = JStr ''verification_request'' \<and>
      derived_status w item = JStr VERIFICATION_ACCEPTED)"

definition active_entry :: "world \<Rightarrow> row \<Rightarrow> bool" where
  "active_entry w item =
     (fld item ''type'' = JStr ''verification_request'' \<and>
      ACTIVE_EVENTS_has (derived_status w item))"

section \<open>The resolution order as the specification words it\<close>


section \<open>Concrete instances\<close>

text \<open>
  A small host, store and configuration on which the theorems below are exercised:
  the digest of a string is its length in decimal, the parser knows four bodies, the
  store accepts every write.
\<close>

definition demo_payload :: jsval where
  "demo_payload =
     JObj [(''reference'', JStr ''r9''), (''event'', JStr ''verification.accepted''),
           (''user_id'', JStr ''u7'')]"

definition declined_payload :: jsval where
  "declined_payload =
     JObj [(''reference'', JStr ''rC''), (''event'', JStr ''verification.declined'')]"

definition accepted_payload :: jsval where
  "accepted_payload =
     JObj [(''reference'', JStr ''rB''), (''event'', JStr ''verification.accepted'')]"

definition demo_host :: "response option \<Rightarrow> host" where
  "demo_host answer =
     \<lparr> sha256_hex = (\<lambda>s. show_nat (length s)),
       JSON_parse = (\<lambda>s. if s = ''{demo}'' then Some demo_payload
                         else if s = ''{rC}'' then Some declined_payload
                         else if s = ''{rB}'' then Some accepted_payload
                         else if s = ''{}'' then Some (JObj []) else None),
       JSON_stringify = (\<lambda>v. ''{}''),
       base64 = (\<lambda>s. s),
       fetch = (\<lambda>url auth body. answer),
       putItem_rejects = (\<lambda>r. False) \<rparr>"

definition demo_config :: config where
  "demo_config = CONFIG\<lparr> SECRET_KEY := ''secret_abc'' \<rparr>"

definition empty_world :: world where
  "empty_world =
     \<lparr> table = [], puts = [], LOCAL_REQUEST_TIMESTAMPS = [], logs = [], errors = [] \<rparr>"

text \<open>\<open>k\<close> accounted calls, one second apart.\<close>

definition demo_calls :: "nat \<Rightarrow> (int \<times> string \<times> string) list" where
  "demo_calls k = map (\<lambda>i. (int i * 1000, ''t'', ''t'')) [0..<k]"

text \<open>
  A store with two attempts of user \<open>u7\<close>: \<open>rA\<close>, accepted, and the later \<open>rB\<close>,
  still pending. A query of the user's partition answers \<open>rA\<close> before \<open>rB\<close>, so the
  reversed scan meets the pending attempt first.
\<close>

definition demo_request :: "string \<Rightarrow> string \<Rightarrow> string \<Rightarrow> row" where
  "demo_request ref t ev =
     [(''pk'', JStr ''user_u7''), (''sk'', JStr t), (''ppk'', JStr ref),
      (''created_at'', JStr t), (''type'', JStr ''verification_request''),
      (''userId'', JStr ''u7''), (''reference'', JStr ref), (''event'', JStr ev),
      (''verificationUrl'', JStr (''https://verify.example/'' @ ref))]"

definition demo_meta :: "string \<Rightarrow> string \<Rightarrow> string \<Rightarrow> row" where
  "demo_meta ref t st =
     [(''pk'', JStr (''meta_'' @ ref)), (''sk'', JStr ''meta''), (''ppk'', JStr ref),
      (''created_at'', JStr t), (''type'', JStr ''meta''),
      (''userId'', JStr ''u7''), (''reference'', JStr ref), (''status'', JStr st),
      (''verificationUrl'', JStr (''https://verify.example/'' @ ref)),
      (''language'', JStr ''en'')]"

definition demo_world :: world where
  "demo_world = empty_world\<lparr> table :=
     [demo_request ''rA'' ''2025-01-01T00:00:00.000Z'' ''request.pending'',
      demo_meta ''rA'' ''2025-01-01T00:00:00.000Z'' ''verification.accepted'',
      demo_request ''rB'' ''2025-02-01T00:00:00.000Z'' ''request.pending'',
      demo_meta ''rB'' ''2025-02-01T00:00:00.000Z'' ''request.pending''] \<rparr>"

text \<open>
  A call for user \<open>u7\<close>, its clock readings, and two provider responses with a
  non-success status: \<open>signed_400\<close> carries the right tag for its body,
  \<open>unsigned_400\<close> a wrong one. \<open>pending_world\<close> holds the pending attempt only.
\<close>

definition demo_args :: session_args where
  "demo_args =
     \<lparr> userId = JStr ''u7'', userEmail = JStr ''u7@example.com'', appLocale = JStr ''en-AU'',
       userCountry = JStr ''AU'', verificationMode = JUndefined,
       documentConfig = JUndefined \<rparr>"

definition demo_clean :: row where
  "demo_clean =
     [(''userId'', JStr ''u7''), (''userEmail'', JStr ''u7@example.com''),
      (''appLocale'', JStr ''en-AU''), (''userCountry'', JStr ''AU''),
      (''verificationMode'', JStr ''any'')]"

definition demo_env :: create_env where
  "demo_env =
     \<lparr> guard_now = 1740787200000, guard_iso1 = ''2025-03-01T00:00:00.000Z'',
       guard_iso2 = ''2025-03-01T00:00:00.000Z'', ref_now = ''1740787200000'',
       ref_random = ''42'',
       created_at_now = ''2025-03-01T00:00:00.000Z'' \<rparr>"

definition signed_400 :: response where
  "signed_400 =
     \<lparr> res_ok = False, res_status = ''400'',
       headers_get = (\<lambda>k. if k = ''signature'' then Some ''4'' else None),
       res_text = ''{}'' \<rparr>"

definition unsigned_400 :: response where
  "unsigned_400 =
     \<lparr> res_ok = False, res_status = ''400'',
       headers_get = (\<lambda>k. if k = ''signature'' then Some ''WRONG'' else None),
       res_text = ''{}'' \<rparr>"

definition pending_world :: world where
  "pending_world = empty_world\<lparr> table :=
     [demo_request ''rB'' ''2025-02-01T00:00:00.000Z'' ''request.pending'',
      demo_meta ''rB'' ''2025-02-01T00:00:00.000Z'' ''request.pending''] \<rparr>"




text \<open>
  A store that refuses every write, and a window that already holds the sixty calls of
  the last minute, one second apart.
\<close>

definition refusing_host :: host where
  "refusing_host = (demo_host None)\<lparr> putItem_rejects := (\<lambda>r. True) \<rparr>"

definition busy_world :: world where
  "busy_world =
     empty_world\<lparr> LOCAL_REQUEST_TIMESTAMPS := map (\<lambda>i. int i * 1000) [0..<60] \<rparr>"

text \<open>
  A call made one second after the last of these sixty: its clock readings.
\<close>

definition busy_env :: create_env where
  "busy_env = demo_env\<lparr> guard_now := 60000 \<rparr>"


section \<open>Properties of the values and of the store\<close>

declare show_nat.simps [simp del]

lemma map_of_obj_fold:
  "map_of (foldl (\<lambda>r kv. AList.update (fst kv) (snd kv) r) acc kvs) k =
     (case map_of (rev kvs) k of Some v \<Rightarrow> Some v | None \<Rightarrow> map_of acc k)"
  by (induction kvs arbitrary: acc) (auto simp: update_conv' map_add_def split: option.splits)

lemma distinct_obj_fold:
  "distinct (map fst acc) \<Longrightarrow>
   distinct (map fst (foldl (\<lambda>r kv. AList.update (fst kv) (snd kv) r) acc kvs))"
  by (induction kvs arbitrary: acc) (simp_all add: distinct_update)

lemma set_js_order: "set (js_order r) = set r"
  by (auto simp: js_order_def)

lemma map_of_js_order:
  assumes "distinct (map fst r)"
  shows "map_of (js_order r) = map_of r"
proof -
  from assms have d: "distinct r" and i: "inj_on fst (set r)"
    by (simp_all add: distinct_map)
  have "distinct (js_order r)"
    using d by (auto simp: js_order_def)
  with i have "distinct (map fst (js_order r))"
    by (simp add: distinct_map set_js_order)
  with assms show ?thesis
    by (simp add: map_of_inject_set set_js_order)
qed

lemma fld_obj:
  "fld (obj kvs) k = (case map_of (rev kvs) k of Some v \<Rightarrow> v | None \<Rightarrow> JUndefined)"
proof -
  have "distinct (map fst (foldl (\<lambda>r kv. AList.update (fst kv) (snd kv) r) [] kvs))"
    by (rule distinct_obj_fold) simp
  then show ?thesis
    by (simp add: fld_def obj_def map_of_js_order map_of_obj_fold split: option.splits)
qed

lemma find_upsert:
  "find (\<lambda>x. row_key x = k) (upsert r t) =
     (if row_key r = k then Some r else find (\<lambda>x. row_key x = k) t)"
  by (induction t) auto

lemma putItem_accepted:
  "\<not> putItem_rejects h r \<Longrightarrow>
   putItem h r w = Some (w\<lparr> table := upsert r (table w), puts := puts w @ [r] \<rparr>)"
  by (simp add: putItem_def)

lemma putItem_rejected: "putItem_rejects h r \<Longrightarrow> putItem h r w = None"
  by (simp add: putItem_def)

lemma putItem_Some:
  assumes "putItem h r w = Some w'"
  shows "table w' = upsert r (table w)" "puts w' = puts w @ [r]"
    "LOCAL_REQUEST_TIMESTAMPS w' = LOCAL_REQUEST_TIMESTAMPS w"
    "logs w' = logs w" "errors w' = errors w"
  using assms by (auto simp: putItem_def split: if_splits)

lemma world_sel_simps [simp]:
  "table (writeLog e w) = table w"
  "puts (writeLog e w) = puts w"
  "LOCAL_REQUEST_TIMESTAMPS (writeLog e w) = LOCAL_REQUEST_TIMESTAMPS w"
  "errors (writeLog e w) = errors w"
  "logs (writeLog e w) = logs w @ [e]"
  "table (add_error m d w) = table w"
  "puts (add_error m d w) = puts w"
  "LOCAL_REQUEST_TIMESTAMPS (add_error m d w) = LOCAL_REQUEST_TIMESTAMPS w"
  "logs (add_error m d w) = logs w"
  "errors (add_error m d w) = errors w @ [(m, d)]"
  by (simp_all add: writeLog_def add_error_def)

lemma reads_ignore_sinks [simp]:
  "getItem (writeLog e w) pk sk = getItem w pk sk"
  "getItem (add_error m d w) pk sk = getItem w pk sk"
  "query (writeLog e w) attr v lim = query w attr v lim"
  "query (add_error m d w) attr v lim = query w attr v lim"
  "metaByRef (writeLog e w) ref = metaByRef w ref"
  "metaByRef (add_error m d w) ref = metaByRef w ref"
  by (simp_all add: getItem_def query_def metaByRef_def)

lemma js_absent [simp]:
  "js_or JUndefined x = x"
  "js_or JNull x = x"
  "js_nullish JUndefined x = x"
  "js_nullish JNull x = x"
  "opt_fld None k = JUndefined"
  "opt_fld (Some r) k = fld r k"
  by (simp_all add: js_or_def js_nullish_def opt_fld_def)

text \<open>
  What \<open>String\<close> does with the values a JSON parser can hand over: a string, a
  number, a boolean, \<open>null\<close> and a plain object without a field named
  \<open>toString\<close> print; a plain object with such a field throws, whatever the field
  holds, for a parsed value is no function.
\<close>

lemma to_String_plain [simp]:
  "map_of fs ''toString'' = None \<Longrightarrow> to_String (JObj fs) = Some ''[object Object]''"
  by (simp add: object_to_String_def member_def inherited_def prototype_functions_def
        method_call_def native_call_def)

lemma to_String_own_toString:
  assumes "map_of fs ''toString'' = Some v" and "\<forall>f. v \<noteq> JFun f"
    and "\<forall>f. map_of fs ''valueOf'' \<noteq> Some (JFun f)"
  shows "to_String (JObj fs) = None"
proof -
  from assms(1,2) have t: "method_call fs (member fs ''toString'') = NotPrim"
    by (cases v) (simp_all add: member_def method_call_def)
  have "method_call fs (member fs ''valueOf'') = NotPrim"
  proof (cases "map_of fs ''valueOf''")
    case None
    then show ?thesis
      by (simp add: member_def inherited_def prototype_functions_def method_call_def
            native_call_def)
  next
    case (Some u)
    with assms(3) show ?thesis
      by (cases u) (simp_all add: member_def method_call_def)
  qed
  with t show ?thesis by (simp add: object_to_String_def)
qed

section \<open>Properties of the signature codec\<close>

lemma dropWhile_same_length: "length (dropWhile P xs) = length xs \<Longrightarrow> dropWhile P xs = xs"
proof (cases xs)
  case Nil
  then show ?thesis by simp
next
  case (Cons x ys)
  assume len: "length (dropWhile P xs) = length xs"
  have "length (dropWhile P ys) \<le> length ys" by (rule length_dropWhile_le)
  with len Cons have "\<not> P x" by (auto split: if_splits)
  with Cons show ?thesis by simp
qed

lemma trim_same_length:
  assumes "length (trim s) = length s"
  shows "trim s = s"
proof -
  let ?d = "dropWhile js_whitespace s"
  have a: "length (trim s) \<le> length ?d"
    unfolding trim_def using length_dropWhile_le [of js_whitespace "rev ?d"] by simp
  have b: "length ?d \<le> length s" by (rule length_dropWhile_le)
  from a b assms have d: "length ?d = length s" by simp
  then have ds: "?d = s" by (rule dropWhile_same_length)
  from assms ds have "length (dropWhile js_whitespace (rev s)) = length (rev s)"
    by (simp add: trim_def)
  then have "dropWhile js_whitespace (rev s) = rev s" by (rule dropWhile_same_length)
  with ds show ?thesis by (simp add: trim_def)
qed

lemma trim_mutated:
  assumes "i < length t" and "c \<noteq> t ! i"
  shows "trim (t[i := c]) \<noteq> t"
proof
  assume eq: "trim (t[i := c]) = t"
  then have "length (trim (t[i := c])) = length (t[i := c])" by simp
  then have "trim (t[i := c]) = t[i := c]" by (rule trim_same_length)
  with eq have "t[i := c] = t" by simp
  then have "t[i := c] ! i = t ! i" by simp
  with assms show False by simp
qed

lemma hex_not_whitespace: "c \<in> set ''0123456789abcdef'' \<Longrightarrow> \<not> js_whitespace c"
  by (auto simp: js_whitespace_def)

lemma trim_hex_digest:
  assumes "hex_digest s"
  shows "trim s = s" and "s \<noteq> []"
proof -
  from assms show ne: "s \<noteq> []" by (auto simp: hex_digest_def)
  from assms have "set s \<subseteq> set ''0123456789abcdef''"
    by (simp add: hex_digest_def)
  then have all: "\<forall>c \<in> set s. \<not> js_whitespace c"
    using hex_not_whitespace by blast
  from ne all have "\<not> js_whitespace (hd s)" "\<not> js_whitespace (last s)"
    by simp_all
  with ne have "dropWhile js_whitespace s = s" "dropWhile js_whitespace (rev s) = rev s"
    by (cases s, simp_all) (cases "rev s", simp_all add: hd_rev [symmetric])
  then show "trim s = s" by (simp add: trim_def)
qed

text \<open>
  The round trip of the codec, and what a change of one code unit does. A signed
  non-empty body verifies. A tag changed in one position never verifies, whatever the
  digest function is: trimming can only shorten it. A body changed in one position is
  accepted exactly when the two digest inputs collide; that SHA-256 has no such
  collision is a property of the hash function and not of this code.
\<close>

lemma signatureFor_string:
  "signatureFor h (JStr body) secret = Inr (sha256_hex h (body @ sha256_hex h secret))"
  by (simp add: signatureFor_def)

lemma verify_strings:
  "verifyShuftiSignature h cfg (JStr body) (JStr tag) =
     Inr (body \<noteq> [] \<and> tag \<noteq> [] \<and>
          sha256_hex h (body @ sha256_hex h (SECRET_KEY cfg)) = trim tag)"
  by (simp add: verifyShuftiSignature_def Let_def)

lemma verify_round_trip:
  assumes "body \<noteq> []" and "\<forall>x. hex_digest (sha256_hex h x)"
  shows "signatureFor h (JStr body) (SECRET_KEY cfg) =
           Inr (sha256_hex h (body @ sha256_hex h (SECRET_KEY cfg))) \<and>
         verifyShuftiSignature h cfg (JStr body)
           (JStr (sha256_hex h (body @ sha256_hex h (SECRET_KEY cfg)))) = Inr True"
  using assms trim_hex_digest [of "sha256_hex h (body @ sha256_hex h (SECRET_KEY cfg))"]
  by (simp add: verify_strings signatureFor_string)

lemma verify_mutated_tag:
  assumes "signatureFor h (JStr body) (SECRET_KEY cfg) = Inr tag"
    and "i < length tag" and "c \<noteq> tag ! i"
  shows "verifyShuftiSignature h cfg (JStr body) (JStr (tag[i := c])) = Inr False"
  using trim_mutated [OF assms(2,3)] assms(1)
  by (auto simp: verify_strings signatureFor_string)

lemma verify_mutated_body:
  assumes "i < length body" and "\<forall>x. hex_digest (sha256_hex h x)"
    and "signatureFor h (JStr body) (SECRET_KEY cfg) = Inr tag"
  shows "verifyShuftiSignature h cfg (JStr (body[i := c])) (JStr tag) =
         Inr (sha256_hex h (body[i := c] @ sha256_hex h (SECRET_KEY cfg)) =
              sha256_hex h (body @ sha256_hex h (SECRET_KEY cfg)))"
proof -
  from assms(1) have ne: "body[i := c] \<noteq> []" by auto
  from assms(3) have tag: "tag = sha256_hex h (body @ sha256_hex h (SECRET_KEY cfg))"
    by (simp add: signatureFor_string)
  from assms(2) have "trim tag = tag" "tag \<noteq> []"
    unfolding tag by (simp_all add: trim_hex_digest)
  with ne tag show ?thesis
    by (simp add: verify_strings)
qed

text \<open>
  C5. What verification answers on every pair of values. A falsy body or tag (empty
  string, \<open>null\<close>, \<open>undefined\<close>, \<open>0\<close>, \<open>false\<close>) is rejected, and so is any
  mismatch between the recomputed tag and the trimmed received one, as long as
  \<open>String\<close> can print both values. It cannot print an object that has a field named
  \<open>toString\<close> of its own which is no function, as a parsed \<open>{"toString": 1}\<close>:
  with such a tag, or such a body, the function throws a \<open>TypeError\<close> where it was
  to answer \<open>false\<close>.
\<close>

theorem verify_failure_safe:
  "(\<not> truthy body \<or> \<not> truthy tag \<longrightarrow> verifyShuftiSignature h cfg body tag = Inr False) \<and>
   verifyShuftiSignature h cfg (JStr []) tag = Inr False \<and>
   verifyShuftiSignature h cfg body (JStr []) = Inr False \<and>
   (truthy body \<and> truthy tag \<and> to_String body = Some b \<and> to_String tag = Some t \<longrightarrow>
      verifyShuftiSignature h cfg body tag =
        Inr (sha256_hex h (b @ sha256_hex h (SECRET_KEY cfg)) = trim t)) \<and>
   (truthy body \<and> truthy tag \<and> (to_String body = None \<or> to_String tag = None) \<longrightarrow>
      verifyShuftiSignature h cfg body tag = Inl TypeError) \<and>
   verifyShuftiSignature h cfg (JStr ''x'') (JObj [(''toString'', JNum ''1'')]) =
     Inl TypeError \<and>
   verifyShuftiSignature h cfg (JObj [(''toString'', JNum ''1'')]) (JStr ''x'') =
     Inl TypeError"
proof -
  have t: "to_String (JObj [(''toString'', JNum ''1'')]) = None"
    by (rule to_String_own_toString [where v = "JNum ''1''"]) simp_all
  then have t': "object_to_String [(''toString'', JNum ''1'')] = None" by simp
  show ?thesis
    by (auto simp: verifyShuftiSignature_def Let_def t' split: option.splits)
qed

theorem verify_failure_safe_witness:
  "\<not> truthy JNull \<and>
   verifyShuftiSignature (demo_host None) demo_config JNull (JStr ''15'') = Inr False \<and>
   truthy (JStr ''{demo}'') \<and> truthy (JStr ''9'') \<and>
   verifyShuftiSignature (demo_host None) demo_config (JStr ''{demo}'') (JStr ''9'') =
     Inr False \<and>
   verifyShuftiSignature (demo_host None) demo_config (JStr ''{demo}'') (JStr '' 8 '') =
     Inr True \<and>
   truthy (JObj [(''toString'', JNum ''1'')]) \<and>
   to_String (JObj [(''toString'', JNum ''1'')]) = None \<and>
   verifyShuftiSignature (demo_host None) demo_config (JStr ''{demo}'')
     (JObj [(''toString'', JNum ''1'')]) = Inl TypeError"
proof -
  have t: "to_String (JObj [(''toString'', JNum ''1'')]) = None"
    by (rule to_String_own_toString [where v = "JNum ''1''"]) simp_all
  then have t': "object_to_String [(''toString'', JNum ''1'')] = None" by simp
  have d: "sha256_hex (demo_host None)
       (''{demo}'' @ sha256_hex (demo_host None) (SECRET_KEY demo_config)) = ''8''"
    by (simp add: demo_host_def demo_config_def CONFIG_def show_nat.simps digit_char_def)
  have tr: "trim ''9'' = ''9''" "trim '' 8 '' = ''8''"
    by (simp_all add: trim_def js_whitespace_def)
  show ?thesis
    using t' d tr
      verify_failure_safe [of JNull "JStr ''15''" "demo_host None" demo_config]
      verify_failure_safe [of "JStr ''{demo}''" "JStr ''9''" "demo_host None" demo_config
        "''{demo}''" "''9''"]
      verify_failure_safe [of "JStr ''{demo}''" "JStr '' 8 ''" "demo_host None" demo_config
        "''{demo}''" "'' 8 ''"]
      verify_failure_safe [of "JStr ''{demo}''" "JObj [(''toString'', JNum ''1'')]"
        "demo_host None" demo_config]
    by simp
qed

section \<open>Properties of the rate guard\<close>

lemma shift_old_keep:
  "\<forall>t \<in> set ts. now - t \<le> 60000 \<Longrightarrow> shift_old now ts = ts"
  by (cases ts) auto

lemma shift_old_dropWhile: "shift_old now ts = dropWhile (\<lambda>t. now - t > 60000) ts"
  by (induction ts) auto

lemma guard_quiet:
  assumes "\<not> PER_MINUTE_LIMIT cfg <
             int (length (shift_old now (LOCAL_REQUEST_TIMESTAMPS w @ [now])))"
  shows "registerLocalRateAndMaybeAlert h cfg lbl now iso1 iso2 w =
           (Inr (), w\<lparr> LOCAL_REQUEST_TIMESTAMPS :=
                          shift_old now (LOCAL_REQUEST_TIMESTAMPS w @ [now]) \<rparr>)"
  using assms by (simp add: registerLocalRateAndMaybeAlert_def Let_def)

lemma guard_alert:
  assumes "PER_MINUTE_LIMIT cfg <
             int (length (shift_old now (LOCAL_REQUEST_TIMESTAMPS w @ [now])))"
    and "\<not> putItem_rejects h
             (rate_limit_row lbl iso1 iso2
                (length (shift_old now (LOCAL_REQUEST_TIMESTAMPS w @ [now]))))"
  shows "registerLocalRateAndMaybeAlert h cfg lbl now iso1 iso2 w =
           (Inr (),
            w\<lparr> LOCAL_REQUEST_TIMESTAMPS := shift_old now (LOCAL_REQUEST_TIMESTAMPS w @ [now]),
               logs := logs w @ [breach_entry lbl
                 (length (shift_old now (LOCAL_REQUEST_TIMESTAMPS w @ [now])))],
               table := upsert (rate_limit_row lbl iso1 iso2
                 (length (shift_old now (LOCAL_REQUEST_TIMESTAMPS w @ [now])))) (table w),
               puts := puts w @ [rate_limit_row lbl iso1 iso2
                 (length (shift_old now (LOCAL_REQUEST_TIMESTAMPS w @ [now])))] \<rparr>)"
  using assms
  by (simp add: registerLocalRateAndMaybeAlert_def Let_def putItem_def writeLog_def)

lemma guard_refused:
  assumes "PER_MINUTE_LIMIT cfg <
             int (length (shift_old now (LOCAL_REQUEST_TIMESTAMPS w @ [now])))"
    and "putItem_rejects h
           (rate_limit_row lbl iso1 iso2
              (length (shift_old now (LOCAL_REQUEST_TIMESTAMPS w @ [now]))))"
  shows "registerLocalRateAndMaybeAlert h cfg lbl now iso1 iso2 w =
           (Inl StoreError,
            w\<lparr> LOCAL_REQUEST_TIMESTAMPS := shift_old now (LOCAL_REQUEST_TIMESTAMPS w @ [now]),
               logs := logs w @ [breach_entry lbl
                 (length (shift_old now (LOCAL_REQUEST_TIMESTAMPS w @ [now])))] \<rparr>)"
  using assms
  by (simp add: registerLocalRateAndMaybeAlert_def Let_def putItem_def writeLog_def)

lemma guard_window:
  "LOCAL_REQUEST_TIMESTAMPS (snd (registerLocalRateAndMaybeAlert h cfg lbl now iso1 iso2 w)) =
     shift_old now (LOCAL_REQUEST_TIMESTAMPS w @ [now])"
  "errors (snd (registerLocalRateAndMaybeAlert h cfg lbl now iso1 iso2 w)) = errors w"
  by (simp_all add: registerLocalRateAndMaybeAlert_def Let_def putItem_def writeLog_def)

lemma rate_limit_row_fields:
  "fld (rate_limit_row lbl iso1 iso2 count) ''pk'' = JStr ''system_shufti''"
  "fld (rate_limit_row lbl iso1 iso2 count) ''sk'' = JStr iso1"
  "fld (rate_limit_row lbl iso1 iso2 count) ''ppk'' = JStr ''rate_limit''"
  "fld (rate_limit_row lbl iso1 iso2 count) ''created_at'' = JStr iso2"
  "fld (rate_limit_row lbl iso1 iso2 count) ''type'' = JStr ''rate_limit''"
  "fld (rate_limit_row lbl iso1 iso2 count) ''context'' = JStr lbl"
  "fld (rate_limit_row lbl iso1 iso2 count) ''countInLastMinute'' = JNum (show_nat count)"
  by (simp_all add: rate_limit_row_def fld_obj js_length_def)

lemma breach_entry_fields:
  "fld (breach_entry lbl count) ''flag'' = JStr ''kyc_rate_limit''"
  "fld (breach_entry lbl count) ''action'' = JStr ''breach''"
  "fld (breach_entry lbl count) ''message'' = JStr ''Local per-minute threshold breached''"
  "fld (breach_entry lbl count) ''critical'' = JBool True"
  "get_prop (fld (breach_entry lbl count) ''data'') ''contextLabel'' = JStr lbl"
  "get_prop (fld (breach_entry lbl count) ''data'') ''count'' = JNum (show_nat count)"
  by (simp_all add: breach_entry_def log_entry_def fld_obj get_prop_def js_length_def)

lemma guard_calls_snoc:
  "guard_calls h cfg lbl (cs @ [(now, iso1, iso2)]) w =
     snd (registerLocalRateAndMaybeAlert h cfg lbl now iso1 iso2 (guard_calls h cfg lbl cs w))"
  by (induction cs arbitrary: w) auto

lemma guard_calls_quiet:
  assumes "\<forall>a \<in> set (LOCAL_REQUEST_TIMESTAMPS w @ map fst cs).
             \<forall>b \<in> set (LOCAL_REQUEST_TIMESTAMPS w @ map fst cs). a - b \<le> 60000"
    and "int (length (LOCAL_REQUEST_TIMESTAMPS w) + length cs) \<le> PER_MINUTE_LIMIT cfg"
  shows "LOCAL_REQUEST_TIMESTAMPS (guard_calls h cfg lbl cs w) =
           LOCAL_REQUEST_TIMESTAMPS w @ map fst cs \<and>
         puts (guard_calls h cfg lbl cs w) = puts w \<and>
         logs (guard_calls h cfg lbl cs w) = logs w \<and>
         table (guard_calls h cfg lbl cs w) = table w"
  using assms
proof (induction cs arbitrary: w)
  case Nil
  then show ?case by simp
next
  case (Cons c cs)
  obtain now iso1 iso2 where c: "c = (now, iso1, iso2)" by (cases c) auto
  let ?w1 = "snd (registerLocalRateAndMaybeAlert h cfg lbl now iso1 iso2 w)"
  from Cons.prems(1) c
  have keep: "shift_old now (LOCAL_REQUEST_TIMESTAMPS w @ [now]) = LOCAL_REQUEST_TIMESTAMPS w @ [now]"
    by (intro shift_old_keep) auto
  from Cons.prems(2) have small:
    "\<not> PER_MINUTE_LIMIT cfg < int (length (shift_old now (LOCAL_REQUEST_TIMESTAMPS w @ [now])))"
    unfolding keep by simp
  have w1: "LOCAL_REQUEST_TIMESTAMPS ?w1 = LOCAL_REQUEST_TIMESTAMPS w @ [now]"
      "puts ?w1 = puts w" "logs ?w1 = logs w" "table ?w1 = table w"
    using keep by (simp_all add: guard_quiet [OF small])
  have "LOCAL_REQUEST_TIMESTAMPS (guard_calls h cfg lbl cs ?w1) =
           LOCAL_REQUEST_TIMESTAMPS ?w1 @ map fst cs \<and>
         puts (guard_calls h cfg lbl cs ?w1) = puts ?w1 \<and>
         logs (guard_calls h cfg lbl cs ?w1) = logs ?w1 \<and>
         table (guard_calls h cfg lbl cs ?w1) = table ?w1"
  proof (rule Cons.IH)
    show "\<forall>a\<in>set (LOCAL_REQUEST_TIMESTAMPS ?w1 @ map fst cs).
            \<forall>b\<in>set (LOCAL_REQUEST_TIMESTAMPS ?w1 @ map fst cs). a - b \<le> 60000"
      using Cons.prems(1) c w1(1) by auto
    show "int (length (LOCAL_REQUEST_TIMESTAMPS ?w1) + length cs) \<le> PER_MINUTE_LIMIT cfg"
      using Cons.prems(2) w1(1) by simp
  qed
  with w1 c show ?case by simp
qed

text \<open>
  C7. One accounted call appends "now" to the window and drops the entries older than
  60 seconds from its front. If the resulting count does not exceed the per-minute
  threshold, the call emits nothing and returns. If it does, the call emits one advisory
  log event (flag \<open>kyc_rate_limit\<close>, action \<open>breach\<close>, critical, with the label
  and the count) and asks the store to write one advisory record (type
  \<open>rate_limit\<close>, partition \<open>system_shufti\<close>, with the label as \<open>context\<close> and
  the count as \<open>countInLastMinute\<close>). When the store takes the record, the guard
  returns; when the store refuses it, the guard throws, and \<open>createVerificationSession\<close>,
  which awaits the guard without a \<open>try\<close>, fails before it has contacted the
  provider: there the guard does reject the accounted call. For a run of calls that
  starts with an empty window and lies within one minute, with threshold \<open>n\<close> and a
  store that takes every write: the first \<open>n\<close> calls emit nothing, and call
  \<open>n + 1\<close> emits one record and one log event (threshold 60: calls 1 to 60 emit
  none, call 61 emits one).
\<close>

theorem rate_guard_advisory:
  "(let ts = shift_old now (LOCAL_REQUEST_TIMESTAMPS w @ [now]);
        count = length ts;
        record = rate_limit_row lbl isoA isoB count;
        out = registerLocalRateAndMaybeAlert h cfg lbl now isoA isoB w;
        w' = snd out
    in ts = dropWhile (\<lambda>t. now - t > 60000) (LOCAL_REQUEST_TIMESTAMPS w @ [now]) \<and>
       LOCAL_REQUEST_TIMESTAMPS w' = ts \<and> errors w' = errors w \<and>
       (int count \<le> PER_MINUTE_LIMIT cfg \<longrightarrow>
          fst out = Inr () \<and> puts w' = puts w \<and> logs w' = logs w \<and> table w' = table w) \<and>
       (PER_MINUTE_LIMIT cfg < int count \<longrightarrow>
          logs w' = logs w @ [breach_entry lbl count] \<and>
          (\<not> putItem_rejects h record \<longrightarrow>
             fst out = Inr () \<and> puts w' = puts w @ [record] \<and>
             table w' = upsert record (table w)) \<and>
          (putItem_rejects h record \<longrightarrow>
             fst out = Inl StoreError \<and> puts w' = puts w \<and> table w' = table w)) \<and>
       fld record ''pk'' = JStr ''system_shufti'' \<and>
       fld record ''sk'' = JStr isoA \<and>
       fld record ''ppk'' = JStr ''rate_limit'' \<and>
       fld record ''created_at'' = JStr isoB \<and>
       fld record ''type'' = JStr ''rate_limit'' \<and>
       fld record ''context'' = JStr lbl \<and>
       fld record ''countInLastMinute'' = JNum (show_nat count) \<and>
       fld (breach_entry lbl count) ''flag'' = JStr ''kyc_rate_limit'' \<and>
       fld (breach_entry lbl count) ''action'' = JStr ''breach'' \<and>
       fld (breach_entry lbl count) ''critical'' = JBool True \<and>
       get_prop (fld (breach_entry lbl count) ''data'') ''contextLabel'' = JStr lbl \<and>
       get_prop (fld (breach_entry lbl count) ''data'') ''count'' = JNum (show_nat count)) \<and>
   (let count = length (shift_old (guard_now env)
                         (LOCAL_REQUEST_TIMESTAMPS w @ [guard_now env]))
    in PER_MINUTE_LIMIT cfg < int count \<and>
       putItem_rejects h
         (rate_limit_row ''createVerificationSession'' (guard_iso1 env) (guard_iso2 env) count)
       \<longrightarrow>
         fst (createNewSession h cfg env clean dc w) = Inl StoreError \<and>
         puts (snd (createNewSession h cfg env clean dc w)) = puts w \<and>
         table (snd (createNewSession h cfg env clean dc w)) = table w) \<and>
   (LOCAL_REQUEST_TIMESTAMPS w = [] \<and> PER_MINUTE_LIMIT cfg = int n \<and>
    (\<forall>r. \<not> putItem_rejects h r) \<and>
    (\<forall>a \<in> set (map fst cs). \<forall>b \<in> set (map fst cs). a - b \<le> 60000) \<longrightarrow>
      (length cs \<le> n \<longrightarrow>
         puts (guard_calls h cfg lbl cs w) = puts w \<and>
         logs (guard_calls h cfg lbl cs w) = logs w) \<and>
      (length cs = Suc n \<longrightarrow>
         puts (guard_calls h cfg lbl cs w) =
           puts w @ [rate_limit_row lbl (fst (snd (last cs))) (snd (snd (last cs))) (Suc n)] \<and>
         logs (guard_calls h cfg lbl cs w) = logs w @ [breach_entry lbl (Suc n)]))"
proof (intro conjI)
  let ?ts = "shift_old now (LOCAL_REQUEST_TIMESTAMPS w @ [now])"
  let ?out = "registerLocalRateAndMaybeAlert h cfg lbl now isoA isoB w"
  let ?rec = "rate_limit_row lbl isoA isoB (length ?ts)"
  have quiet: "fst ?out = Inr () \<and> puts (snd ?out) = puts w \<and> logs (snd ?out) = logs w \<and>
      table (snd ?out) = table w" if "int (length ?ts) \<le> PER_MINUTE_LIMIT cfg"
  proof -
    from that have "\<not> PER_MINUTE_LIMIT cfg < int (length ?ts)" by simp
    then show ?thesis by (simp add: guard_quiet)
  qed
  have logged: "logs (snd ?out) = logs w @ [breach_entry lbl (length ?ts)]"
    if "PER_MINUTE_LIMIT cfg < int (length ?ts)"
    using that
    by (cases "putItem_rejects h ?rec") (simp_all add: guard_alert guard_refused)
  have taken: "fst ?out = Inr () \<and> puts (snd ?out) = puts w @ [?rec] \<and>
      table (snd ?out) = upsert ?rec (table w)"
    if "PER_MINUTE_LIMIT cfg < int (length ?ts)" "\<not> putItem_rejects h ?rec"
    using that by (simp add: guard_alert)
  have refused: "fst ?out = Inl StoreError \<and> puts (snd ?out) = puts w \<and>
      table (snd ?out) = table w"
    if "PER_MINUTE_LIMIT cfg < int (length ?ts)" "putItem_rejects h ?rec"
    using that by (simp add: guard_refused)
  show "let ts = shift_old now (LOCAL_REQUEST_TIMESTAMPS w @ [now]);
        count = length ts;
        record = rate_limit_row lbl isoA isoB count;
        out = registerLocalRateAndMaybeAlert h cfg lbl now isoA isoB w;
        w' = snd out
    in ts = dropWhile (\<lambda>t. now - t > 60000) (LOCAL_REQUEST_TIMESTAMPS w @ [now]) \<and>
       LOCAL_REQUEST_TIMESTAMPS w' = ts \<and> errors w' = errors w \<and>
       (int count \<le> PER_MINUTE_LIMIT cfg \<longrightarrow>
          fst out = Inr () \<and> puts w' = puts w \<and> logs w' = logs w \<and> table w' = table w) \<and>
       (PER_MINUTE_LIMIT cfg < int count \<longrightarrow>
          logs w' = logs w @ [breach_entry lbl count] \<and>
          (\<not> putItem_rejects h record \<longrightarrow>
             fst out = Inr () \<and> puts w' = puts w @ [record] \<and>
             table w' = upsert record (table w)) \<and>
          (putItem_rejects h record \<longrightarrow>
             fst out = Inl StoreError \<and> puts w' = puts w \<and> table w' = table w)) \<and>
       fld record ''pk'' = JStr ''system_shufti'' \<and>
       fld record ''sk'' = JStr isoA \<and>
       fld record ''ppk'' = JStr ''rate_limit'' \<and>
       fld record ''created_at'' = JStr isoB \<and>
       fld record ''type'' = JStr ''rate_limit'' \<and>
       fld record ''context'' = JStr lbl \<and>
       fld record ''countInLastMinute'' = JNum (show_nat count) \<and>
       fld (breach_entry lbl count) ''flag'' = JStr ''kyc_rate_limit'' \<and>
       fld (breach_entry lbl count) ''action'' = JStr ''breach'' \<and>
       fld (breach_entry lbl count) ''critical'' = JBool True \<and>
       get_prop (fld (breach_entry lbl count) ''data'') ''contextLabel'' = JStr lbl \<and>
       get_prop (fld (breach_entry lbl count) ''data'') ''count'' = JNum (show_nat count)"
    unfolding Let_def
    using quiet logged taken refused
    by (simp add: guard_window rate_limit_row_fields breach_entry_fields
          shift_old_dropWhile [symmetric])
next
  show "let count = length (shift_old (guard_now env)
                         (LOCAL_REQUEST_TIMESTAMPS w @ [guard_now env]))
    in PER_MINUTE_LIMIT cfg < int count \<and>
       putItem_rejects h
         (rate_limit_row ''createVerificationSession'' (guard_iso1 env) (guard_iso2 env) count)
       \<longrightarrow>
         fst (createNewSession h cfg env clean dc w) = Inl StoreError \<and>
         puts (snd (createNewSession h cfg env clean dc w)) = puts w \<and>
         table (snd (createNewSession h cfg env clean dc w)) = table w"
    unfolding Let_def
    by (simp add: createNewSession_def guard_refused)
next
  show "LOCAL_REQUEST_TIMESTAMPS w = [] \<and> PER_MINUTE_LIMIT cfg = int n \<and>
    (\<forall>r. \<not> putItem_rejects h r) \<and>
    (\<forall>a \<in> set (map fst cs). \<forall>b \<in> set (map fst cs). a - b \<le> 60000) \<longrightarrow>
      (length cs \<le> n \<longrightarrow>
         puts (guard_calls h cfg lbl cs w) = puts w \<and>
         logs (guard_calls h cfg lbl cs w) = logs w) \<and>
      (length cs = Suc n \<longrightarrow>
         puts (guard_calls h cfg lbl cs w) =
           puts w @ [rate_limit_row lbl (fst (snd (last cs))) (snd (snd (last cs))) (Suc n)] \<and>
         logs (guard_calls h cfg lbl cs w) = logs w @ [breach_entry lbl (Suc n)])"
  proof (intro impI conjI)
    assume hyp: "LOCAL_REQUEST_TIMESTAMPS w = [] \<and> PER_MINUTE_LIMIT cfg = int n \<and>
      (\<forall>r. \<not> putItem_rejects h r) \<and>
      (\<forall>a \<in> set (map fst cs). \<forall>b \<in> set (map fst cs). a - b \<le> 60000)"
    {
      assume "length cs \<le> n"
      with hyp guard_calls_quiet [of w cs cfg h lbl]
      show "puts (guard_calls h cfg lbl cs w) = puts w"
        "logs (guard_calls h cfg lbl cs w) = logs w"
        by simp_all
    }
    {
      assume len: "length cs = Suc n"
      then have ne: "cs \<noteq> []" by auto
      define xs where "xs = butlast cs"
      obtain t i1 i2 where l: "last cs = (t, i1, i2)" by (cases "last cs") auto
      from ne l have cs: "cs = xs @ [(t, i1, i2)]"
        using append_butlast_last_id [of cs] by (simp add: xs_def)
      have lx: "length xs = n" using len by (simp add: xs_def)
      let ?w = "guard_calls h cfg lbl xs w"
      have q: "LOCAL_REQUEST_TIMESTAMPS ?w = LOCAL_REQUEST_TIMESTAMPS w @ map fst xs \<and>
           puts ?w = puts w \<and> logs ?w = logs w \<and> table ?w = table w"
        using hyp cs lx by (intro guard_calls_quiet) auto
      have keep: "shift_old t (LOCAL_REQUEST_TIMESTAMPS ?w @ [t]) =
          LOCAL_REQUEST_TIMESTAMPS ?w @ [t]"
        using hyp cs q by (intro shift_old_keep) auto
      have cnt: "length (shift_old t (LOCAL_REQUEST_TIMESTAMPS ?w @ [t])) = Suc n"
        unfolding keep using q hyp lx by simp
      have over: "PER_MINUTE_LIMIT cfg < int (length (shift_old t (LOCAL_REQUEST_TIMESTAMPS ?w @ [t])))"
        unfolding cnt using hyp by simp
      have ok: "\<not> putItem_rejects h (rate_limit_row lbl i1 i2
          (length (shift_old t (LOCAL_REQUEST_TIMESTAMPS ?w @ [t]))))"
        using hyp by simp
      show "puts (guard_calls h cfg lbl cs w) =
             puts w @ [rate_limit_row lbl (fst (snd (last cs))) (snd (snd (last cs))) (Suc n)]"
        unfolding cs guard_calls_snoc guard_alert [OF over ok] using q cnt by simp
      show "logs (guard_calls h cfg lbl cs w) = logs w @ [breach_entry lbl (Suc n)]"
        unfolding cs guard_calls_snoc guard_alert [OF over ok] using q cnt by simp
    }
  qed
qed

theorem rate_guard_advisory_witness:
  "LOCAL_REQUEST_TIMESTAMPS empty_world = [] \<and> PER_MINUTE_LIMIT demo_config = int 60 \<and>
   map fst (demo_calls 61) = map (\<lambda>i. int i * 1000) [0..<61] \<and>
   length (demo_calls 61) = Suc 60 \<and>
   puts (guard_calls (demo_host None) demo_config ''createVerificationSession''
           (demo_calls 61) empty_world) =
     [rate_limit_row ''createVerificationSession'' ''t'' ''t'' 61] \<and>
   length (demo_calls 60) \<le> 60 \<and>
   puts (guard_calls (demo_host None) demo_config ''createVerificationSession''
           (demo_calls 60) empty_world) = [] \<and>
   length (shift_old 60000 (LOCAL_REQUEST_TIMESTAMPS busy_world @ [60000])) = 61 \<and>
   putItem_rejects refusing_host
     (rate_limit_row ''createVerificationSession'' ''t'' ''t'' 61) \<and>
   fst (registerLocalRateAndMaybeAlert refusing_host demo_config
          ''createVerificationSession'' 60000 ''t'' ''t'' busy_world) = Inl StoreError \<and>
   puts (snd (registerLocalRateAndMaybeAlert refusing_host demo_config
          ''createVerificationSession'' 60000 ''t'' ''t'' busy_world)) = []"
proof -
  have w: "LOCAL_REQUEST_TIMESTAMPS empty_world = []" "puts empty_world = []"
    "puts busy_world = []"
    by (simp_all add: empty_world_def busy_world_def)
  have lim: "PER_MINUTE_LIMIT demo_config = int 60"
    by (simp add: demo_config_def CONFIG_def)
  have acc: "\<forall>r. \<not> putItem_rejects (demo_host None) r"
    by (simp add: demo_host_def)
  have rej: "putItem_rejects refusing_host r" for r
    by (simp add: refusing_host_def)
  have span: "\<forall>a \<in> set (map fst (demo_calls k)). \<forall>b \<in> set (map fst (demo_calls k)). a - b \<le> 60000"
    if "k \<le> 61" for k
    using that by (auto simp: demo_calls_def)
  have len: "length (demo_calls k) = k" for k
    by (simp add: demo_calls_def)
  have lst: "last (demo_calls 61) = (60000, ''t'', ''t'')"
    by (simp add: demo_calls_def last_map)
  have times: "map fst (demo_calls 61) = map (\<lambda>i. int i * 1000) [0..<61]"
    by (simp add: demo_calls_def)
  have "shift_old 60000 (LOCAL_REQUEST_TIMESTAMPS busy_world @ [60000]) =
      LOCAL_REQUEST_TIMESTAMPS busy_world @ [60000]"
    by (rule shift_old_keep) (auto simp: busy_world_def)
  then have busy: "length (shift_old 60000 (LOCAL_REQUEST_TIMESTAMPS busy_world @ [60000])) = 61"
    by (simp add: busy_world_def)
  show ?thesis
    using w lim acc rej span [of 61] span [of 60] len [of 61] len [of 60] lst times busy
      rate_guard_advisory [where w = empty_world and cfg = demo_config and n = 60
         and h = "demo_host None"
         and cs = "demo_calls 61" and lbl = "''createVerificationSession''"]
      rate_guard_advisory [where w = empty_world and cfg = demo_config and n = 60
         and h = "demo_host None"
         and cs = "demo_calls 60" and lbl = "''createVerificationSession''"]
      rate_guard_advisory [where w = busy_world and cfg = demo_config
         and h = refusing_host and now = 60000 and isoA = "''t''" and isoB = "''t''"
         and lbl = "''createVerificationSession''"]
    by (simp add: Let_def)
qed

lemmas key_defs = KEYS_pk_def KEYS_sk_def gsi_meta_pk_def gsi_meta_sk_def

section \<open>Properties of the session resolver\<close>

lemma validate_userId:
  assumes "validate_args args = Inr clean"
  shows "\<exists>s. fld clean ''userId'' = JStr s"
proof -
  from assms have "userId args \<noteq> JNull \<and> is_string (userId args) \<and>
      fld clean ''userId'' = userId args"
    by (auto simp: validate_args_def Let_def js_nullish_def fld_def update_conv'
          split: if_splits)
  then show ?thesis by (cases "userId args") (simp_all add: is_string_def)
qed

lemma demo_world_lookup:
  "metaByRef demo_world (JStr ''rA'') =
     Some (demo_meta ''rA'' ''2025-01-01T00:00:00.000Z'' ''verification.accepted'')"
  "metaByRef demo_world (JStr ''rB'') =
     Some (demo_meta ''rB'' ''2025-02-01T00:00:00.000Z'' ''request.pending'')"
  by (simp_all add: metaByRef_def query_def pickMeta_def key_defs
        demo_world_def empty_world_def demo_request_def demo_meta_def fld_def)

lemma scanTimeline_find:
  "scanTimeline w items cand =
     (case find (accepted_entry w) items of
        Some it \<Rightarrow> Accepted (reuse_of w it)
      | None \<Rightarrow>
          Scanned (case cand of
                     Some c \<Rightarrow> Some c
                   | None \<Rightarrow> map_option (reuse_of w) (find (active_entry w) items)))"
proof (induction items arbitrary: cand)
  case Nil
  then show ?case by (simp split: option.splits)
next
  case (Cons item items)
  show ?case
  proof (cases "fld item ''type'' = JStr ''verification_request''")
    case False
    then have "\<not> accepted_entry w item" "\<not> active_entry w item"
      by (simp_all add: accepted_entry_def active_entry_def)
    with False show ?thesis
      by (simp add: Cons.IH split: option.splits)
  next
    case req: True
    show ?thesis
    proof (cases "derived_status w item = JStr VERIFICATION_ACCEPTED")
      case True
      with req have "accepted_entry w item" by (simp add: accepted_entry_def)
      with req True show ?thesis by (simp split: option.splits)
    next
      case False
      with req have na: "\<not> accepted_entry w item" by (simp add: accepted_entry_def)
      show ?thesis
      proof (cases "ACTIVE_EVENTS_has (derived_status w item)")
        case True
        with req have act: "active_entry w item" by (simp add: active_entry_def)
        from req False True na act show ?thesis
          by (cases cand) (simp_all add: Cons.IH split: option.splits)
      next
        case nact: False
        with req have "\<not> active_entry w item" by (simp add: active_entry_def)
        with req False nact na show ?thesis
          by (simp add: Cons.IH split: option.splits)
      qed
    qed
  qed
qed

lemma find_first:
  "(\<forall>x \<in> set pre. \<not> P x) \<Longrightarrow> P it \<Longrightarrow> find P (pre @ it # post) = Some it"
  by (induction pre) auto

lemma createVerificationSession_scan:
  assumes "validate_args args = Inr clean"
  shows "createVerificationSession h cfg env args w =
     (case find (accepted_entry w) (sortedTimeline w clean) of
        Some it \<Rightarrow>
          (Inr (AlreadyValidated (reuse_of w it)),
           writeLog
             (log_entry ''kyc_request'' ''reuse_accepted''
                ''User already verified; returning accepted session''
                (obj [(''userId'', fld clean ''userId''),
                      (''reference'', reuse_reference (reuse_of w it))])
                False)
             w)
      | None \<Rightarrow>
          (case find (active_entry w) (sortedTimeline w clean) of
             Some it \<Rightarrow>
               (Inr (AlreadyHasActive (reuse_of w it)),
                writeLog
                  (log_entry ''kyc_request'' ''reuse_active''
                     ''Active verification session exists; reusing''
                     (obj [(''userId'', fld clean ''userId''),
                           (''reference'', reuse_reference (reuse_of w it)),
                           (''status'', reuse_status (reuse_of w it))])
                     False)
                  w)
           | None \<Rightarrow>
               createNewSession h cfg env clean
                 (if documentConfig args = JUndefined then JObj [] else documentConfig args)
                 w))"
proof -
  from validate_userId [OF assms] obtain s where "fld clean ''userId'' = JStr s" ..
  with assms show ?thesis
    by (simp add: createVerificationSession_def scanTimeline_find split: option.splits)
qed

lemma demo_validate: "validate_args demo_args = Inr demo_clean"
  by (simp add: validate_args_def demo_args_def demo_clean_def js_nullish_def Let_def
        is_string_def)

lemma demo_timeline:
  "sortedTimeline demo_world demo_clean =
     [demo_request ''rB'' ''2025-02-01T00:00:00.000Z'' ''request.pending'',
      demo_request ''rA'' ''2025-01-01T00:00:00.000Z'' ''request.pending'']"
  "sortedTimeline pending_world demo_clean =
     [demo_request ''rB'' ''2025-02-01T00:00:00.000Z'' ''request.pending'']"
  "sortedTimeline empty_world demo_clean = []"
  by (simp_all add: sortedTimeline_def query_def demo_world_def pending_world_def
        empty_world_def demo_clean_def demo_request_def demo_meta_def fld_def key_defs)

lemma pending_world_lookup:
  "metaByRef pending_world (JStr ''rB'') =
     Some (demo_meta ''rB'' ''2025-02-01T00:00:00.000Z'' ''request.pending'')"
  by (simp add: metaByRef_def query_def pickMeta_def key_defs
        pending_world_def empty_world_def demo_request_def demo_meta_def fld_def)

lemma demo_request_fields:
  "fld (demo_request ref t ev) ''type'' = JStr ''verification_request''"
  "fld (demo_request ref t ev) ''reference'' = JStr ref"
  "fld (demo_request ref t ev) ''event'' = JStr ev"
  "fld (demo_request ref t ev) ''verificationUrl'' = JStr (''https://verify.example/'' @ ref)"
  by (simp_all add: demo_request_def fld_def)

lemma demo_meta_fields:
  "fld (demo_meta ref t st) ''status'' = JStr st"
  "fld (demo_meta ref t st) ''userId'' = JStr ''u7''"
  "fld (demo_meta ref t st) ''verificationUrl'' = JStr (''https://verify.example/'' @ ref)"
  by (simp_all add: demo_meta_def fld_def)

lemma demo_entries:
  "accepted_entry demo_world (demo_request ''rA'' ''2025-01-01T00:00:00.000Z'' ''request.pending'')"
  "\<not> accepted_entry demo_world (demo_request ''rB'' ''2025-02-01T00:00:00.000Z'' ''request.pending'')"
  "active_entry demo_world (demo_request ''rB'' ''2025-02-01T00:00:00.000Z'' ''request.pending'')"
  "\<not> accepted_entry pending_world (demo_request ''rB'' ''2025-02-01T00:00:00.000Z'' ''request.pending'')"
  "active_entry pending_world (demo_request ''rB'' ''2025-02-01T00:00:00.000Z'' ''request.pending'')"
  by (simp_all add: accepted_entry_def active_entry_def derived_status_def demo_request_fields
        demo_world_lookup pending_world_lookup demo_meta_fields js_or_def
        ACTIVE_EVENTS_has_def ACTIVE_EVENTS_def VERIFICATION_ACCEPTED_def)

lemma demo_reuse:
  "reuse_of demo_world (demo_request ''rA'' ''2025-01-01T00:00:00.000Z'' ''request.pending'') =
     \<lparr> reuse_reference = JStr ''rA'', reuse_status = JStr ''verification.accepted'',
       reuse_verificationUrl = JStr ''https://verify.example/rA'' \<rparr>"
  "reuse_of pending_world (demo_request ''rB'' ''2025-02-01T00:00:00.000Z'' ''request.pending'') =
     \<lparr> reuse_reference = JStr ''rB'', reuse_status = JStr ''request.pending'',
       reuse_verificationUrl = JStr ''https://verify.example/rB'' \<rparr>"
  by (simp_all add: reuse_of_def derived_status_def derived_url_def demo_request_fields
        demo_world_lookup pending_world_lookup demo_meta_fields js_or_def js_nullish_def)

text \<open>
  C3. Once the input is validated, the resolver scans the reversed query result. The
  first \<open>verification_request\<close> entry in scan order whose derived status is
  \<open>verification.accepted\<close> is returned as \<open>alreadyValidated\<close>, whatever comes
  after it and whatever ACTIVE entries come before it: an ACTIVE entry is only
  remembered, so a later ACCEPTED one still wins. If there is no ACCEPTED entry, the
  first entry with a status in the ACTIVE set is returned as \<open>alreadyHasActive\<close>. If
  there is neither, the call goes on to create a new session.
\<close>

theorem resolver_reuse_precedence:
  assumes "validate_args args = Inr clean"
  shows
    "(find (accepted_entry w) (sortedTimeline w clean) = Some it \<longrightarrow>
        fst (createVerificationSession h cfg env args w) =
          Inr (AlreadyValidated (reuse_of w it)) \<and>
        reuse_reference (reuse_of w it) = fld it ''reference'' \<and>
        reuse_status (reuse_of w it) = JStr VERIFICATION_ACCEPTED) \<and>
     (find (accepted_entry w) (sortedTimeline w clean) = None \<and>
      find (active_entry w) (sortedTimeline w clean) = Some it \<longrightarrow>
        fst (createVerificationSession h cfg env args w) =
          Inr (AlreadyHasActive (reuse_of w it)) \<and>
        reuse_reference (reuse_of w it) = fld it ''reference'' \<and>
        ACTIVE_EVENTS_has (reuse_status (reuse_of w it))) \<and>
     (find (accepted_entry w) (sortedTimeline w clean) = None \<and>
      find (active_entry w) (sortedTimeline w clean) = None \<longrightarrow>
        createVerificationSession h cfg env args w =
          createNewSession h cfg env clean
            (if documentConfig args = JUndefined then JObj [] else documentConfig args) w) \<and>
     (\<forall>pre post.
        sortedTimeline w clean = pre @ it # post \<and>
        (\<forall>x \<in> set pre. \<not> accepted_entry w x) \<and> accepted_entry w it \<longrightarrow>
        fst (createVerificationSession h cfg env args w) =
          Inr (AlreadyValidated (reuse_of w it)))"
proof (intro conjI impI allI)
  assume a: "find (accepted_entry w) (sortedTimeline w clean) = Some it"
  then show "fst (createVerificationSession h cfg env args w) =
          Inr (AlreadyValidated (reuse_of w it))"
    by (simp add: createVerificationSession_scan [OF assms])
  show "reuse_reference (reuse_of w it) = fld it ''reference''"
    by (simp add: reuse_of_def)
  from a have "accepted_entry w it" by (auto simp: find_Some_iff)
  then show "reuse_status (reuse_of w it) = JStr VERIFICATION_ACCEPTED"
    by (simp add: reuse_of_def accepted_entry_def)
next
  assume a: "find (accepted_entry w) (sortedTimeline w clean) = None \<and>
      find (active_entry w) (sortedTimeline w clean) = Some it"
  then show "fst (createVerificationSession h cfg env args w) =
          Inr (AlreadyHasActive (reuse_of w it))"
    by (simp add: createVerificationSession_scan [OF assms])
  show "reuse_reference (reuse_of w it) = fld it ''reference''"
    by (simp add: reuse_of_def)
  from a have "active_entry w it" by (auto simp: find_Some_iff)
  then show "ACTIVE_EVENTS_has (reuse_status (reuse_of w it))"
    by (simp add: reuse_of_def active_entry_def)
next
  assume "find (accepted_entry w) (sortedTimeline w clean) = None \<and>
      find (active_entry w) (sortedTimeline w clean) = None"
  then show "createVerificationSession h cfg env args w =
          createNewSession h cfg env clean
            (if documentConfig args = JUndefined then JObj [] else documentConfig args) w"
    by (simp add: createVerificationSession_scan [OF assms])
next
  fix pre post
  assume "sortedTimeline w clean = pre @ it # post \<and>
        (\<forall>x \<in> set pre. \<not> accepted_entry w x) \<and> accepted_entry w it"
  then have "find (accepted_entry w) (sortedTimeline w clean) = Some it"
    by (simp add: find_first)
  then show "fst (createVerificationSession h cfg env args w) =
          Inr (AlreadyValidated (reuse_of w it))"
    by (simp add: createVerificationSession_scan [OF assms])
qed


theorem resolver_reuse_precedence_witness:
  "validate_args demo_args = Inr demo_clean \<and>
   sortedTimeline demo_world demo_clean =
     [demo_request ''rB'' ''2025-02-01T00:00:00.000Z'' ''request.pending''] @
     demo_request ''rA'' ''2025-01-01T00:00:00.000Z'' ''request.pending'' # [] \<and>
   active_entry demo_world (demo_request ''rB'' ''2025-02-01T00:00:00.000Z'' ''request.pending'') \<and>
   \<not> accepted_entry demo_world
       (demo_request ''rB'' ''2025-02-01T00:00:00.000Z'' ''request.pending'') \<and>
   accepted_entry demo_world (demo_request ''rA'' ''2025-01-01T00:00:00.000Z'' ''request.pending'') \<and>
   fst (createVerificationSession (demo_host None) demo_config demo_env demo_args demo_world) =
     Inr (AlreadyValidated
       \<lparr> reuse_reference = JStr ''rA'', reuse_status = JStr ''verification.accepted'',
         reuse_verificationUrl = JStr ''https://verify.example/rA'' \<rparr>) \<and>
   find (accepted_entry pending_world) (sortedTimeline pending_world demo_clean) = None \<and>
   find (active_entry pending_world) (sortedTimeline pending_world demo_clean) =
     Some (demo_request ''rB'' ''2025-02-01T00:00:00.000Z'' ''request.pending'') \<and>
   fst (createVerificationSession (demo_host None) demo_config demo_env demo_args pending_world) =
     Inr (AlreadyHasActive
       \<lparr> reuse_reference = JStr ''rB'', reuse_status = JStr ''request.pending'',
         reuse_verificationUrl = JStr ''https://verify.example/rB'' \<rparr>)"
proof -
  have later:
    "fst (createVerificationSession (demo_host None) demo_config demo_env demo_args demo_world) =
       Inr (AlreadyValidated
         (reuse_of demo_world
            (demo_request ''rA'' ''2025-01-01T00:00:00.000Z'' ''request.pending'')))"
    using resolver_reuse_precedence [OF demo_validate, of demo_world
        "demo_request ''rA'' ''2025-01-01T00:00:00.000Z'' ''request.pending''"
        "demo_host None" demo_config demo_env]
      demo_timeline(1) demo_entries(1,2)
    by simp
  have active:
    "fst (createVerificationSession (demo_host None) demo_config demo_env demo_args pending_world) =
       Inr (AlreadyHasActive
         (reuse_of pending_world
            (demo_request ''rB'' ''2025-02-01T00:00:00.000Z'' ''request.pending'')))"
    using resolver_reuse_precedence [OF demo_validate, of pending_world
        "demo_request ''rB'' ''2025-02-01T00:00:00.000Z'' ''request.pending''"
        "demo_host None" demo_config demo_env]
      demo_timeline(2) demo_entries(4,5)
    by simp
  show ?thesis
    using later active demo_validate demo_timeline demo_entries demo_reuse
    by simp
qed

lemma persistAttempt_result:
  "fst (persistAttempt h clean reference language created_at payload parsed w) = Inr r
     \<Longrightarrow> \<exists>url. r = Created reference url"
  by (auto simp: persistAttempt_def Let_def split: option.splits)

lemma receiveResponse_result:
  "fst (receiveResponse h cfg clean reference language created_at payload res w) = Inr r
     \<Longrightarrow> \<exists>url. r = Created reference url"
  by (auto simp: receiveResponse_def Let_def split: option.splits sum.splits bool.splits
        dest: persistAttempt_result)

lemma createNewSession_result:
  "fst (createNewSession h cfg env clean dc w) = Inr r \<Longrightarrow> \<exists>ref url. r = Created ref url"
  by (auto simp: createNewSession_def Let_def split: prod.splits sum.splits option.splits
        dest: receiveResponse_result)

text \<open>
  C9. A call of \<open>createVerificationSession\<close> that answers with a reused attempt
  (\<open>alreadyValidated\<close> or \<open>alreadyHasActive\<close>) has made no call of \<open>putItem\<close>,
  has left the table and the timestamp window of the rate guard as they were, and has
  reported no error: the reuse paths return before the rate guard is accounted and
  before anything is persisted. (They do write one log event.)
\<close>

theorem reuse_is_read_only:
  assumes "fst (createVerificationSession h cfg env args w) = Inr (AlreadyValidated r) \<or>
           fst (createVerificationSession h cfg env args w) = Inr (AlreadyHasActive r)"
  shows "puts (snd (createVerificationSession h cfg env args w)) = puts w \<and>
         table (snd (createVerificationSession h cfg env args w)) = table w \<and>
         LOCAL_REQUEST_TIMESTAMPS (snd (createVerificationSession h cfg env args w)) =
           LOCAL_REQUEST_TIMESTAMPS w \<and>
         errors (snd (createVerificationSession h cfg env args w)) = errors w"
proof (cases "validate_args args")
  case (Inl e)
  with assms show ?thesis by (simp add: createVerificationSession_def)
next
  case (Inr clean)
  from validate_userId [OF Inr] obtain s where uid: "fld clean ''userId'' = JStr s" ..
  show ?thesis
  proof (cases "scanTimeline w (sortedTimeline w clean) None")
    case (Accepted a)
    with Inr uid show ?thesis by (simp add: createVerificationSession_def)
  next
    case (Scanned cand)
    show ?thesis
    proof (cases cand)
      case (Some c)
      with Inr uid Scanned show ?thesis by (simp add: createVerificationSession_def)
    next
      case None
      with Inr uid Scanned have
        "createVerificationSession h cfg env args w =
           createNewSession h cfg env clean
             (if documentConfig args = JUndefined then JObj [] else documentConfig args) w"
        by (simp add: createVerificationSession_def)
      with assms createNewSession_result [of h cfg env clean
          "if documentConfig args = JUndefined then JObj [] else documentConfig args" w]
      show ?thesis by auto
    qed
  qed
qed

theorem reuse_is_read_only_witness:
  "fst (createVerificationSession (demo_host None) demo_config demo_env demo_args demo_world) =
     Inr (AlreadyValidated
       \<lparr> reuse_reference = JStr ''rA'', reuse_status = JStr ''verification.accepted'',
         reuse_verificationUrl = JStr ''https://verify.example/rA'' \<rparr>) \<and>
   puts (snd (createVerificationSession (demo_host None) demo_config demo_env demo_args
     demo_world)) = [] \<and>
   table (snd (createVerificationSession (demo_host None) demo_config demo_env demo_args
     demo_world)) = table demo_world \<and>
   LOCAL_REQUEST_TIMESTAMPS (snd (createVerificationSession (demo_host None) demo_config
     demo_env demo_args demo_world)) = [] \<and>
   fst (createVerificationSession (demo_host None) demo_config demo_env demo_args
     pending_world) =
     Inr (AlreadyHasActive
       \<lparr> reuse_reference = JStr ''rB'', reuse_status = JStr ''request.pending'',
         reuse_verificationUrl = JStr ''https://verify.example/rB'' \<rparr>) \<and>
   puts (snd (createVerificationSession (demo_host None) demo_config demo_env demo_args
     pending_world)) = [] \<and>
   table (snd (createVerificationSession (demo_host None) demo_config demo_env demo_args
     pending_world)) = table pending_world \<and>
   LOCAL_REQUEST_TIMESTAMPS (snd (createVerificationSession (demo_host None) demo_config
     demo_env demo_args pending_world)) = []"
proof -
  have run:
    "fst (createVerificationSession (demo_host None) demo_config demo_env demo_args demo_world) =
       Inr (AlreadyValidated
         \<lparr> reuse_reference = JStr ''rA'', reuse_status = JStr ''verification.accepted'',
           reuse_verificationUrl = JStr ''https://verify.example/rA'' \<rparr>)"
    by (simp add: createVerificationSession_scan [OF demo_validate] demo_timeline
          demo_entries demo_reuse)
  have run2:
    "fst (createVerificationSession (demo_host None) demo_config demo_env demo_args
       pending_world) =
       Inr (AlreadyHasActive
         \<lparr> reuse_reference = JStr ''rB'', reuse_status = JStr ''request.pending'',
           reuse_verificationUrl = JStr ''https://verify.example/rB'' \<rparr>)"
    by (simp add: createVerificationSession_scan [OF demo_validate] demo_timeline
          demo_entries demo_reuse)
  have w: "puts demo_world = []" "LOCAL_REQUEST_TIMESTAMPS demo_world = []"
      "puts pending_world = []" "LOCAL_REQUEST_TIMESTAMPS pending_world = []"
    by (simp_all add: demo_world_def pending_world_def empty_world_def)
  show ?thesis
    using run run2 w
      reuse_is_read_only [of "demo_host None" demo_config demo_env demo_args demo_world
        "\<lparr> reuse_reference = JStr ''rA'', reuse_status = JStr ''verification.accepted'',
           reuse_verificationUrl = JStr ''https://verify.example/rA'' \<rparr>"]
      reuse_is_read_only [of "demo_host None" demo_config demo_env demo_args pending_world
        "\<lparr> reuse_reference = JStr ''rB'', reuse_status = JStr ''request.pending'',
           reuse_verificationUrl = JStr ''https://verify.example/rB'' \<rparr>"]
    by simp
qed

section \<open>The rows the service writes\<close>







section \<open>Properties of the webhook reconciler\<close>


text \<open>
  The reconciler on a body \<open>String\<close> can print: the first log event carries the
  length of the text, and the body that is parsed is the text.
\<close>

lemma handleWebhook_printable:
  assumes "to_String rawBodyString = Some body"
  shows "handleWebhook h cfg now rawBodyString signatureHeader w =
    (let w0 = writeLog
                (log_entry ''kyc_webhook'' ''received'' ''Webhook received''
                   (obj [(''bytes'',
                          js_length (if truthy rawBodyString then length body else 0))])
                   False)
                w
     in case verifyShuftiSignature h cfg rawBodyString signatureHeader of
          Inl e \<Rightarrow> (Inl e, w0)
        | Inr False \<Rightarrow>
            (Inr NotOk,
             writeLog
               (log_entry ''kyc_error'' ''invalid_signature''
                  ''Invalid signature on webhook'' [] True)
               (add_error ''KYC webhook signature invalid'' JUndefined w0))
        | Inr True \<Rightarrow>
            (case JSON_parse h body of
               None \<Rightarrow>
                 (Inr NotOk,
                  writeLog
                    (log_entry ''kyc_error'' ''invalid_json''
                       ''Webhook JSON parse failed'' [] True)
                    (add_error ''KYC webhook invalid JSON''
                       (JObj (obj [(''snippet'', JStr (take 500 body))]))
                       w0))
             | Some payload \<Rightarrow> storeWebhook h cfg now payload w0))"
  using assms
  by (cases "truthy rawBodyString")
     (simp_all add: handleWebhook_def Let_def split: sum.splits bool.splits)

lemma handleWebhook_unprintable:
  assumes "truthy rawBodyString" and "to_String rawBodyString = None"
  shows "handleWebhook h cfg now rawBodyString signatureHeader w = (Inl TypeError, w)"
  using assms by (simp add: handleWebhook_def)


lemma storeWebhook_key_throws:
  assumes "reference = js_or (get_prop payload ''reference'') (JStr ''unknown'')"
    and "event = js_or (get_prop payload ''event'') (JStr ''unknown'')"
    and "uid = js_or (opt_fld (metaByRef w0 reference) ''userId'')
                 (js_or (get_prop payload ''user_id'') (JStr ''unknown''))"
    and "to_String uid = Some uid_text"
    and "to_String reference = None"
    and "event_row = webhook_event_row now uid_text reference event uid payload"
    and "\<not> putItem_rejects h event_row"
  shows "storeWebhook h cfg now payload w0 =
    (Inl TypeError,
     w0\<lparr> table := upsert event_row (table w0), puts := puts w0 @ [event_row] \<rparr>)"
  using assms(4,5,7)
  unfolding assms(1,2,3,6)
  by (simp add: storeWebhook_def Let_def putItem_def)

text \<open>
  C1. Let the body of a webhook be a value \<open>String\<close> can print (every string is
  one; the first statement of \<open>handleWebhook\<close> prints the body before anything is
  checked). If the authenticity tag fails verification, or the tag verifies but the body
  does not parse, \<open>handleWebhook\<close> answers \<open>{ ok: false }\<close> and does not throw,
  leaves the table as it was and calls \<open>putItem\<close> not at all (so no timeline entry
  is appended and no meta row is changed), and reports one error.
\<close>

theorem webhook_rejected_no_write:
  assumes "to_String rawBodyString = Some body"
    and "verifyShuftiSignature h cfg rawBodyString signatureHeader = Inr False \<or>
         (verifyShuftiSignature h cfg rawBodyString signatureHeader = Inr True \<and>
          JSON_parse h body = None)"
  shows "fst (handleWebhook h cfg now rawBodyString signatureHeader w) = Inr NotOk \<and>
         table (snd (handleWebhook h cfg now rawBodyString signatureHeader w)) = table w \<and>
         puts (snd (handleWebhook h cfg now rawBodyString signatureHeader w)) = puts w \<and>
         LOCAL_REQUEST_TIMESTAMPS (snd (handleWebhook h cfg now rawBodyString signatureHeader w)) =
           LOCAL_REQUEST_TIMESTAMPS w \<and>
         length (errors (snd (handleWebhook h cfg now rawBodyString signatureHeader w))) =
           Suc (length (errors w)) \<and>
         fst (last (errors (snd (handleWebhook h cfg now rawBodyString signatureHeader w)))) =
           (if verifyShuftiSignature h cfg rawBodyString signatureHeader = Inr False
            then ''KYC webhook signature invalid'' else ''KYC webhook invalid JSON'')"
  using assms(2)
  by (auto simp: handleWebhook_printable [OF assms(1)] Let_def)

theorem webhook_rejected_no_write_witness:
  "to_String (JStr ''{demo}'') = Some ''{demo}'' \<and>
   verifyShuftiSignature (demo_host None) demo_config (JStr ''{demo}'') (JStr ''WRONG'') =
     Inr False \<and>
   handleWebhook (demo_host None) demo_config ''2025-01-01T00:00:00.000Z''
     (JStr ''{demo}'') (JStr ''WRONG'') empty_world =
     (Inr NotOk,
      empty_world\<lparr>
        logs := [log_entry ''kyc_webhook'' ''received'' ''Webhook received''
                   (obj [(''bytes'', JNum ''6'')]) False,
                 log_entry ''kyc_error'' ''invalid_signature''
                   ''Invalid signature on webhook'' [] True],
        errors := [(''KYC webhook signature invalid'', JUndefined)]\<rparr>) \<and>
   to_String (JStr ''{ nope'') = Some ''{ nope'' \<and>
   verifyShuftiSignature (demo_host None) demo_config (JStr ''{ nope'') (JStr ''8'') =
     Inr True \<and>
   JSON_parse (demo_host None) ''{ nope'' = None \<and>
   fst (handleWebhook (demo_host None) demo_config ''2025-01-01T00:00:00.000Z''
     (JStr ''{ nope'') (JStr ''8'') empty_world) = Inr NotOk \<and>
   table (snd (handleWebhook (demo_host None) demo_config ''2025-01-01T00:00:00.000Z''
     (JStr ''{ nope'') (JStr ''8'') empty_world)) = [] \<and>
   puts (snd (handleWebhook (demo_host None) demo_config ''2025-01-01T00:00:00.000Z''
     (JStr ''{ nope'') (JStr ''8'') empty_world)) = []"
proof -
  have bad: "verifyShuftiSignature (demo_host None) demo_config (JStr ''{demo}'')
      (JStr ''WRONG'') = Inr False"
    by (simp add: verify_strings demo_host_def demo_config_def CONFIG_def
          show_nat.simps digit_char_def trim_def js_whitespace_def)
  have good: "verifyShuftiSignature (demo_host None) demo_config (JStr ''{ nope'')
      (JStr ''8'') = Inr True"
    by (simp add: verify_strings demo_host_def demo_config_def CONFIG_def
          show_nat.simps digit_char_def trim_def js_whitespace_def)
  have unparsable: "JSON_parse (demo_host None) ''{ nope'' = None"
    by (simp add: demo_host_def)
  have six: "js_length (length ''{demo}'') = JNum ''6''"
    by (simp add: js_length_def show_nat.simps digit_char_def)
  have run: "handleWebhook (demo_host None) demo_config ''2025-01-01T00:00:00.000Z''
     (JStr ''{demo}'') (JStr ''WRONG'') empty_world =
     (Inr NotOk,
      empty_world\<lparr>
        logs := [log_entry ''kyc_webhook'' ''received'' ''Webhook received''
                   (obj [(''bytes'', JNum ''6'')]) False,
                 log_entry ''kyc_error'' ''invalid_signature''
                   ''Invalid signature on webhook'' [] True],
        errors := [(''KYC webhook signature invalid'', JUndefined)]\<rparr>)"
    using bad six
    by (simp add: handleWebhook_printable [of "JStr ''{demo}''" "''{demo}''"] Let_def
          writeLog_def add_error_def empty_world_def)
  have tbl: "table empty_world = []" "puts empty_world = []"
    by (simp_all add: empty_world_def)
  show ?thesis
    using bad good unparsable run tbl
      webhook_rejected_no_write [of "JStr ''{demo}''" "''{demo}''" "demo_host None"
        demo_config "JStr ''WRONG''" "''2025-01-01T00:00:00.000Z''" empty_world]
      webhook_rejected_no_write [of "JStr ''{ nope''" "''{ nope''" "demo_host None"
        demo_config "JStr ''8''" "''2025-01-01T00:00:00.000Z''" empty_world]
    by simp
qed



section \<open>Properties of the manual override\<close>




lemma updateRecordStatus_unprintable:
  assumes "metaByRef w reference = None" and "to_String reference = None"
  shows "updateRecordStatus h cfg now reference newStatus w = (Inl TypeError, w)"
  using assms by (simp add: updateRecordStatus_def metaByRefOrKey_def)



section \<open>Properties of the session creator\<close>

lemma new_rows_fields:
  "fld (verification_request_row clean ut ref t ev url payload parsed lang) ''pk'' =
     JStr (''user_'' @ ut)"
  "fld (verification_request_row clean ut ref t ev url payload parsed lang) ''sk'' = JStr t"
  "fld (verification_request_row clean ut ref t ev url payload parsed lang) ''ppk'' = JStr ref"
  "fld (verification_request_row clean ut ref t ev url payload parsed lang) ''type'' =
     JStr ''verification_request''"
  "fld (verification_request_row clean ut ref t ev url payload parsed lang) ''userId'' =
     fld clean ''userId''"
  "fld (verification_request_row clean ut ref t ev url payload parsed lang) ''reference'' =
     JStr ref"
  "fld (verification_request_row clean ut ref t ev url payload parsed lang) ''event'' = ev"
  "fld (verification_request_row clean ut ref t ev url payload parsed lang)
     ''verificationUrl'' = url"
  "fld (verification_request_row clean ut ref t ev url payload parsed lang)
     ''requestPayload'' = JObj payload"
  "fld (verification_request_row clean ut ref t ev url payload parsed lang)
     ''responsePayload'' = parsed"
  "fld (verification_request_row clean ut ref t ev url payload parsed lang) ''language'' = lang"
  "fld (verification_request_row clean ut ref t ev url payload parsed lang) ''created_at'' =
     JStr t"
  "fld (new_meta_row clean ref t ev url lang) ''pk'' = JStr (''meta_'' @ ref)"
  "fld (new_meta_row clean ref t ev url lang) ''sk'' = JStr ''meta''"
  "fld (new_meta_row clean ref t ev url lang) ''ppk'' = JStr ref"
  "fld (new_meta_row clean ref t ev url lang) ''type'' = JStr ''meta''"
  "fld (new_meta_row clean ref t ev url lang) ''userId'' = fld clean ''userId''"
  "fld (new_meta_row clean ref t ev url lang) ''reference'' = JStr ref"
  "fld (new_meta_row clean ref t ev url lang) ''status'' = ev"
  "fld (new_meta_row clean ref t ev url lang) ''verificationUrl'' = url"
  "fld (new_meta_row clean ref t ev url lang) ''language'' = lang"
  "fld (new_meta_row clean ref t ev url lang) ''created_at'' = JStr t"
  by (simp_all add: verification_request_row_def new_meta_row_def fld_obj key_defs)

lemma row_key_new_rows:
  "row_key (verification_request_row clean ut ref t ev url payload parsed lang) =
     (JStr (''user_'' @ ut), JStr t)"
  "row_key (new_meta_row clean ref t ev url lang) = (JStr (''meta_'' @ ref), JStr ''meta'')"
  by (simp_all add: row_key_def key_defs new_rows_fields)

lemma persistAttempt_stored:
  assumes "to_String (fld clean ''userId'') = Some ut"
    and "\<not> putItem_rejects h
           (verification_request_row clean ut ref t
              (js_or (get_prop parsed ''event'') (JStr ''unknown''))
              (js_or (get_prop parsed ''verification_url'') JNull) payload parsed lang)"
    and "\<not> putItem_rejects h
           (new_meta_row clean ref t
              (js_or (get_prop parsed ''event'') (JStr ''unknown''))
              (js_or (get_prop parsed ''verification_url'') JNull) lang)"
  shows "persistAttempt h clean ref lang t payload parsed w =
    (Inr (Created ref (js_or (get_prop parsed ''verification_url'') JNull)),
     writeLog
       (log_entry ''kyc_request'' ''created'' ''New Shufti session created''
          (obj [(''userId'', fld clean ''userId''), (''reference'', JStr ref),
                (''event'', js_or (get_prop parsed ''event'') (JStr ''unknown''))])
          False)
       (w\<lparr> table :=
              upsert (new_meta_row clean ref t
                        (js_or (get_prop parsed ''event'') (JStr ''unknown''))
                        (js_or (get_prop parsed ''verification_url'') JNull) lang)
                (upsert (verification_request_row clean ut ref t
                           (js_or (get_prop parsed ''event'') (JStr ''unknown''))
                           (js_or (get_prop parsed ''verification_url'') JNull)
                           payload parsed lang)
                   (table w)),
            puts := puts w @
              [verification_request_row clean ut ref t
                 (js_or (get_prop parsed ''event'') (JStr ''unknown''))
                 (js_or (get_prop parsed ''verification_url'') JNull) payload parsed lang,
               new_meta_row clean ref t
                 (js_or (get_prop parsed ''event'') (JStr ''unknown''))
                 (js_or (get_prop parsed ''verification_url'') JNull) lang] \<rparr>))"
  using assms by (simp add: persistAttempt_def Let_def putItem_def)

lemma after_status_check_sel [simp]:
  "table (after_status_check clean ref res parsed w) = table w"
  "puts (after_status_check clean ref res parsed w) = puts w"
  "LOCAL_REQUEST_TIMESTAMPS (after_status_check clean ref res parsed w) =
     LOCAL_REQUEST_TIMESTAMPS w"
  "map fst (errors (after_status_check clean ref res parsed w)) =
     map fst (errors w) @ (if res_ok res then [] else [''KYC response non-200''])"
  by (simp_all add: after_status_check_def)

lemma receiveResponse_valid:
  assumes "(if res_text res \<noteq> [] then JSON_parse h (res_text res) else Some (JObj [])) = Some parsed"
    and "verifyShuftiSignature h cfg (JStr (res_text res)) (JStr (signature_header res)) =
           Inr True"
  shows "receiveResponse h cfg clean ref lang t payload res w =
           persistAttempt h clean ref lang t payload parsed
             (after_status_check clean ref res parsed w)"
  using assms
  by (simp add: receiveResponse_def Let_def)

lemma receiveResponse_invalid:
  assumes "(if res_text res \<noteq> [] then JSON_parse h (res_text res) else Some (JObj [])) = Some parsed"
    and "verifyShuftiSignature h cfg (JStr (res_text res)) (JStr (signature_header res)) =
           Inr False"
  shows "receiveResponse h cfg clean ref lang t payload res w =
          (Inl InvalidSignature,
           writeLog
             (log_entry ''kyc_error'' ''invalid_signature''
                ''Invalid signature in Shufti response''
                (obj [(''userId'', fld clean ''userId''), (''reference'', JStr ref)])
                True)
             (add_error ''KYC response signature invalid''
                (JObj (obj [(''userId'', fld clean ''userId''), (''reference'', JStr ref)]))
                (after_status_check clean ref res parsed w)))"
  using assms
  by (simp add: receiveResponse_def Let_def)

lemma createVerificationSession_response:
  assumes "validate_args args = Inr clean"
    and "find (accepted_entry w) (sortedTimeline w clean) = None"
    and "find (active_entry w) (sortedTimeline w clean) = None"
    and "registerLocalRateAndMaybeAlert h cfg ''createVerificationSession''
           (guard_now env) (guard_iso1 env) (guard_iso2 env) w = (Inr (), guarded)"
    and "normalizeLocaleToLanguage cfg
           (js_or (fld clean ''appLocale'') (JStr (DEFAULT_LANGUAGE cfg))) = Inr language"
    and "documentConfig args \<noteq> JNull"
    and "fetch h (API_URL cfg)
           (''Basic '' @ base64 h (CLIENT_ID cfg @ '':'' @ SECRET_KEY cfg))
           (JSON_stringify h (JObj
              (payload_of cfg clean (generateReference (ref_now env) (ref_random env))
                 language
                 (if documentConfig args = JUndefined then JObj [] else documentConfig args))))
         = Some res"
  shows "createVerificationSession h cfg env args w =
     receiveResponse h cfg clean (generateReference (ref_now env) (ref_random env))
       language (created_at_now env)
       (payload_of cfg clean (generateReference (ref_now env) (ref_random env)) language
          (if documentConfig args = JUndefined then JObj [] else documentConfig args))
       res
       (writeLog
          (log_entry ''kyc_request'' ''create_new'' ''Creating new Shufti session''
             (obj [(''userId'', fld clean ''userId''),
                   (''reference'', JStr (generateReference (ref_now env) (ref_random env)))])
             False)
          guarded)"
  using assms(2-7)
  by (simp add: createVerificationSession_scan [OF assms(1)] createNewSession_def Let_def
        build_payload_def)

text \<open>
  The language of a validated call. A locale that names a member of
  \<open>Object.prototype\<close> is not in the map and still hits: the language is then a
  function.
\<close>

lemma validate_appLocale:
  assumes "validate_args args = Inr clean"
  shows "\<exists>s. js_or (fld clean ''appLocale'') (JStr (DEFAULT_LANGUAGE cfg)) = JStr s"
proof -
  from assms have "fld clean ''appLocale'' = JNull \<or> is_string (fld clean ''appLocale'')"
    by (auto simp: validate_args_def Let_def js_nullish_def fld_def update_conv'
          split: if_splits)
  then show ?thesis
    by (cases "fld clean ''appLocale''") (auto simp: is_string_def js_or_def)
qed

lemma language_of_string:
  "normalizeLocaleToLanguage cfg (JStr s) =
     Inr (if s = [] then JStr (DEFAULT_LANGUAGE cfg)
          else js_or (locale_lookup cfg (trim s))
                 (js_or (locale_lookup cfg (takeWhile (\<lambda>c. c \<noteq> CHR ''-'') (trim s)))
                    (JStr (DEFAULT_LANGUAGE cfg))))"
  by (simp add: normalizeLocaleToLanguage_def Let_def)

lemma language_inherited_key:
  "normalizeLocaleToLanguage CONFIG (JStr ''constructor'') = Inr (JFun ''Object'')"
  "normalizeLocaleToLanguage CONFIG (JStr ''en-AU'') = Inr (JStr ''en'')"
  "normalizeLocaleToLanguage CONFIG (JStr ''fr-CA'') = Inr (JStr ''fr'')"
  "normalizeLocaleToLanguage CONFIG (JStr ''xx'') = Inr (JStr ''en'')"
  by (simp_all add: language_of_string locale_lookup_def member_def inherited_def
        prototype_functions_def CONFIG_def js_or_def trim_def js_whitespace_def)

lemma demo_responses:
  "verifyShuftiSignature (demo_host a) demo_config (JStr (res_text signed_400))
     (JStr (signature_header signed_400)) = Inr True"
  "verifyShuftiSignature (demo_host a) demo_config (JStr (res_text unsigned_400))
     (JStr (signature_header unsigned_400)) = Inr False"
  "(if res_text signed_400 \<noteq> [] then JSON_parse (demo_host a) (res_text signed_400)
    else Some (JObj [])) = Some (JObj [])"
  "(if res_text unsigned_400 \<noteq> [] then JSON_parse (demo_host a) (res_text unsigned_400)
    else Some (JObj [])) = Some (JObj [])"
  "\<not> res_ok signed_400" "\<not> res_ok unsigned_400"
  by (simp_all add: verify_strings signature_header_def signed_400_def
        unsigned_400_def demo_host_def demo_config_def CONFIG_def show_nat.simps digit_char_def
        trim_def js_whitespace_def)

lemma demo_reference: "generateReference (ref_now demo_env) (ref_random demo_env) =
    ''ref-1740787200000-42''"
  by (simp add: generateReference_def demo_env_def)

lemma demo_language:
  "normalizeLocaleToLanguage demo_config
     (js_or (fld demo_clean ''appLocale'') (JStr (DEFAULT_LANGUAGE demo_config))) =
   Inr (JStr ''en'')"
  by (simp add: demo_clean_def fld_def js_or_def language_of_string locale_lookup_def
        member_def demo_config_def CONFIG_def trim_def js_whitespace_def)

lemma guard_returned:
  assumes "registerLocalRateAndMaybeAlert h cfg lbl now isoA isoB w = (Inr (), guarded)"
  shows "puts guarded =
           puts w @
           (if PER_MINUTE_LIMIT cfg <
                 int (length (shift_old now (LOCAL_REQUEST_TIMESTAMPS w @ [now])))
            then [rate_limit_row lbl isoA isoB
                    (length (shift_old now (LOCAL_REQUEST_TIMESTAMPS w @ [now])))]
            else [])"
    and "table guarded =
           (if PER_MINUTE_LIMIT cfg <
                 int (length (shift_old now (LOCAL_REQUEST_TIMESTAMPS w @ [now])))
            then upsert (rate_limit_row lbl isoA isoB
                    (length (shift_old now (LOCAL_REQUEST_TIMESTAMPS w @ [now])))) (table w)
            else table w)"
    and "errors guarded = errors w"
proof -
  let ?n = "length (shift_old now (LOCAL_REQUEST_TIMESTAMPS w @ [now]))"
  have "puts guarded =
           puts w @ (if PER_MINUTE_LIMIT cfg < int ?n then [rate_limit_row lbl isoA isoB ?n]
                     else []) \<and>
        table guarded =
           (if PER_MINUTE_LIMIT cfg < int ?n
            then upsert (rate_limit_row lbl isoA isoB ?n) (table w) else table w) \<and>
        errors guarded = errors w"
  proof (cases "PER_MINUTE_LIMIT cfg < int ?n")
    case False
    with assms show ?thesis by (auto simp: guard_quiet)
  next
    case over: True
    show ?thesis
    proof (cases "putItem_rejects h (rate_limit_row lbl isoA isoB ?n)")
      case True
      with over assms show ?thesis by (simp add: guard_refused)
    next
      case False
      with over assms show ?thesis by (auto simp: guard_alert)
    qed
  qed
  then show "puts guarded =
           puts w @ (if PER_MINUTE_LIMIT cfg < int ?n then [rate_limit_row lbl isoA isoB ?n]
                     else [])"
    and "table guarded =
           (if PER_MINUTE_LIMIT cfg < int ?n
            then upsert (rate_limit_row lbl isoA isoB ?n) (table w) else table w)"
    and "errors guarded = errors w"
    by simp_all
qed

text \<open>
  A call that does not verify and has still persisted a record: the sixty-first call of
  a minute gets a response with a wrong tag. It throws, and the store holds the advisory
  record the rate guard wrote before the request was sent.
\<close>

theorem advisory_record_persisted:
  "fst (createVerificationSession (demo_host (Some unsigned_400)) demo_config busy_env
          demo_args busy_world) = Inl InvalidSignature \<and>
   puts busy_world = [] \<and> table busy_world = [] \<and>
   puts (snd (createVerificationSession (demo_host (Some unsigned_400)) demo_config busy_env
          demo_args busy_world)) =
     [rate_limit_row ''createVerificationSession'' ''2025-03-01T00:00:00.000Z''
        ''2025-03-01T00:00:00.000Z'' 61] \<and>
   table (snd (createVerificationSession (demo_host (Some unsigned_400)) demo_config busy_env
          demo_args busy_world)) =
     [rate_limit_row ''createVerificationSession'' ''2025-03-01T00:00:00.000Z''
        ''2025-03-01T00:00:00.000Z'' 61] \<and>
   fld (rate_limit_row ''createVerificationSession'' ''2025-03-01T00:00:00.000Z''
        ''2025-03-01T00:00:00.000Z'' 61) ''type'' = JStr ''rate_limit''"
proof -
  let ?h = "demo_host (Some unsigned_400)"
  let ?row = "rate_limit_row ''createVerificationSession'' ''2025-03-01T00:00:00.000Z''
        ''2025-03-01T00:00:00.000Z'' 61"
  have b: "puts busy_world = []" "table busy_world = []" "logs busy_world = []"
    by (simp_all add: busy_world_def empty_world_def)
  have tl: "sortedTimeline busy_world demo_clean = []"
    by (simp add: sortedTimeline_def query_def busy_world_def empty_world_def
          demo_clean_def fld_def)
  have env: "guard_now busy_env = 60000" "guard_iso1 busy_env = ''2025-03-01T00:00:00.000Z''"
    "guard_iso2 busy_env = ''2025-03-01T00:00:00.000Z''"
    "ref_now busy_env = ref_now demo_env" "ref_random busy_env = ref_random demo_env"
    by (simp_all add: busy_env_def demo_env_def)
  have keep: "shift_old 60000 (LOCAL_REQUEST_TIMESTAMPS busy_world @ [60000]) =
      LOCAL_REQUEST_TIMESTAMPS busy_world @ [60000]"
    by (rule shift_old_keep) (auto simp: busy_world_def)
  have n: "length (shift_old 60000 (LOCAL_REQUEST_TIMESTAMPS busy_world @ [60000])) = 61"
    unfolding keep by (simp add: busy_world_def)
  have over: "PER_MINUTE_LIMIT demo_config <
      int (length (shift_old 60000 (LOCAL_REQUEST_TIMESTAMPS busy_world @ [60000])))"
    unfolding n by (simp add: demo_config_def CONFIG_def)
  have acc: "\<not> putItem_rejects ?h r" for r
    by (simp add: demo_host_def)
  have g: "registerLocalRateAndMaybeAlert ?h demo_config ''createVerificationSession''
      (guard_now busy_env) (guard_iso1 busy_env) (guard_iso2 busy_env) busy_world =
      (Inr (),
       busy_world\<lparr> LOCAL_REQUEST_TIMESTAMPS := LOCAL_REQUEST_TIMESTAMPS busy_world @ [60000],
          logs := logs busy_world @ [breach_entry ''createVerificationSession'' 61],
          table := upsert ?row (table busy_world),
          puts := puts busy_world @ [?row] \<rparr>)"
    unfolding env using guard_alert [OF over acc] unfolding keep
    by (simp add: busy_world_def)
  have dc: "documentConfig demo_args \<noteq> JNull"
    by (simp add: demo_args_def)
  have f: "fetch ?h u a p = Some unsigned_400" for u a p
    by (simp add: demo_host_def)
  have run: "createVerificationSession ?h demo_config busy_env demo_args busy_world =
     receiveResponse ?h demo_config demo_clean
       (generateReference (ref_now busy_env) (ref_random busy_env))
       (JStr ''en'') (created_at_now busy_env)
       (payload_of demo_config demo_clean
          (generateReference (ref_now busy_env) (ref_random busy_env)) (JStr ''en'')
          (if documentConfig demo_args = JUndefined then JObj [] else documentConfig demo_args))
       unsigned_400
       (writeLog
          (log_entry ''kyc_request'' ''create_new'' ''Creating new Shufti session''
             (obj [(''userId'', fld demo_clean ''userId''),
                   (''reference'',
                    JStr (generateReference (ref_now busy_env) (ref_random busy_env)))])
             False)
          (busy_world\<lparr> LOCAL_REQUEST_TIMESTAMPS := LOCAL_REQUEST_TIMESTAMPS busy_world @ [60000],
             logs := logs busy_world @ [breach_entry ''createVerificationSession'' 61],
             table := upsert ?row (table busy_world),
             puts := puts busy_world @ [?row] \<rparr>))"
    by (rule createVerificationSession_response [OF demo_validate _ _ g demo_language dc f])
       (simp_all add: tl)
  show ?thesis
    unfolding run receiveResponse_invalid [OF demo_responses(4) demo_responses(2)]
    by (simp add: b rate_limit_row_fields)
qed

text \<open>
  C2. Take a call of \<open>createVerificationSession\<close> that found nothing to reuse, was
  let through by the rate guard, and got a response whose body parses. If the
  authenticity tag of the response is valid and the store takes the two rows, the call
  answers \<open>{ reference, verificationUrl }\<close> and persists the
  \<open>verification_request\<close> row (under \<open>user_<userId>\<close>, with the reference, the
  event and the URL of the response, the request and the response) and the meta row
  (under \<open>meta_<reference>\<close>, with the event as its status), whether or not the HTTP
  status is a success: a non-success status is only reported as an error. If the tag
  is invalid, the call throws and persists neither row: what the call has written is what
  the rate guard wrote before the request was sent, nothing, or the advisory record (of
  type \<open>rate_limit\<close>) if this call exceeded the threshold. The non-200 report comes
  before the signature report, so a non-200 response is signature-checked before
  either row is stored.
\<close>

theorem response_validation_order:
  fixes h cfg env args w clean res parsed language guarded uid
  defines "reference \<equiv> generateReference (ref_now env) (ref_random env)"
    and "payload \<equiv> payload_of cfg clean
                       (generateReference (ref_now env) (ref_random env)) language
                       (if documentConfig args = JUndefined then JObj []
                        else documentConfig args)"
    and "event \<equiv> js_or (get_prop parsed ''event'') (JStr ''unknown'')"
    and "verificationUrl \<equiv> js_or (get_prop parsed ''verification_url'') JNull"
    and "outcome \<equiv> createVerificationSession h cfg env args w"
    and "count \<equiv> length (shift_old (guard_now env)
                            (LOCAL_REQUEST_TIMESTAMPS w @ [guard_now env]))"
  defines "request_row \<equiv> verification_request_row clean uid reference (created_at_now env)
                            event verificationUrl payload parsed language"
    and "meta_row \<equiv> new_meta_row clean reference (created_at_now env) event
                         verificationUrl language"
    and "advisory \<equiv>
           (if PER_MINUTE_LIMIT cfg < int count
            then [rate_limit_row ''createVerificationSession'' (guard_iso1 env)
                    (guard_iso2 env) count]
            else [])"
  assumes "validate_args args = Inr clean"
    and "find (accepted_entry w) (sortedTimeline w clean) = None"
    and "find (active_entry w) (sortedTimeline w clean) = None"
    and "registerLocalRateAndMaybeAlert h cfg ''createVerificationSession''
           (guard_now env) (guard_iso1 env) (guard_iso2 env) w = (Inr (), guarded)"
    and "normalizeLocaleToLanguage cfg
           (js_or (fld clean ''appLocale'') (JStr (DEFAULT_LANGUAGE cfg))) = Inr language"
    and "documentConfig args \<noteq> JNull"
    and "fetch h (API_URL cfg)
           (''Basic '' @ base64 h (CLIENT_ID cfg @ '':'' @ SECRET_KEY cfg))
           (JSON_stringify h (JObj payload)) = Some res"
    and "(if res_text res \<noteq> [] then JSON_parse h (res_text res) else Some (JObj []))
         = Some parsed"
    and "to_String (fld clean ''userId'') = Some uid"
  shows
    "(verifyShuftiSignature h cfg (JStr (res_text res)) (JStr (signature_header res)) =
        Inr True \<and>
      \<not> putItem_rejects h request_row \<and> \<not> putItem_rejects h meta_row \<longrightarrow>
        fst outcome = Inr (Created reference verificationUrl) \<and>
        puts (snd outcome) = puts w @ advisory @ [request_row, meta_row] \<and>
        table (snd outcome) = upsert meta_row (upsert request_row (table guarded)) \<and>
        getItem (snd outcome) (JStr (''user_'' @ uid)) (JStr (created_at_now env)) =
          Some request_row \<and>
        getItem (snd outcome) (JStr (''meta_'' @ reference)) (JStr ''meta'') =
          Some meta_row \<and>
        map fst (errors (snd outcome)) =
          map fst (errors w) @ (if res_ok res then [] else [''KYC response non-200''])) \<and>
     (verifyShuftiSignature h cfg (JStr (res_text res)) (JStr (signature_header res)) =
        Inr False \<longrightarrow>
        fst outcome = Inl InvalidSignature \<and>
        puts (snd outcome) = puts w @ advisory \<and>
        table (snd outcome) = table guarded \<and>
        map fst (errors (snd outcome)) =
          map fst (errors w) @ (if res_ok res then [] else [''KYC response non-200'']) @
          [''KYC response signature invalid'']) \<and>
     puts guarded = puts w @ advisory \<and>
     (\<forall>r \<in> set advisory. fld r ''type'' = JStr ''rate_limit'') \<and>
     fld request_row ''type'' = JStr ''verification_request'' \<and>
     fld request_row ''pk'' = JStr (''user_'' @ uid) \<and>
     fld request_row ''sk'' = JStr (created_at_now env) \<and>
     fld request_row ''ppk'' = JStr reference \<and>
     fld request_row ''userId'' = fld clean ''userId'' \<and>
     fld request_row ''reference'' = JStr reference \<and>
     fld request_row ''event'' = event \<and>
     fld request_row ''verificationUrl'' = verificationUrl \<and>
     fld request_row ''requestPayload'' = JObj payload \<and>
     fld request_row ''responsePayload'' = parsed \<and>
     fld request_row ''language'' = language \<and>
     fld meta_row ''type'' = JStr ''meta'' \<and>
     fld meta_row ''pk'' = JStr (''meta_'' @ reference) \<and>
     fld meta_row ''sk'' = JStr ''meta'' \<and>
     fld meta_row ''ppk'' = JStr reference \<and>
     fld meta_row ''userId'' = fld clean ''userId'' \<and>
     fld meta_row ''reference'' = JStr reference \<and>
     fld meta_row ''status'' = event \<and>
     fld meta_row ''verificationUrl'' = verificationUrl \<and>
     fld meta_row ''language'' = language"
proof -
  let ?w2 = "writeLog
          (log_entry ''kyc_request'' ''create_new'' ''Creating new Shufti session''
             (obj [(''userId'', fld clean ''userId''), (''reference'', JStr reference)])
             False)
          guarded"
  have eq: "outcome =
     receiveResponse h cfg clean reference language (created_at_now env) payload res ?w2"
    unfolding outcome_def reference_def payload_def
    using assms(10-16) unfolding payload_def
    by (rule createVerificationSession_response)
  note g = guard_returned [OF assms(13), folded count_def advisory_def]
  have gp: "puts guarded = puts w @ advisory"
    using g(1) by (simp add: advisory_def)
  have adv: "\<forall>r \<in> set advisory. fld r ''type'' = JStr ''rate_limit''"
    by (simp add: advisory_def rate_limit_row_fields)
  have valid: "fst outcome = Inr (Created reference verificationUrl) \<and>
        puts (snd outcome) = puts w @ advisory @ [request_row, meta_row] \<and>
        table (snd outcome) = upsert meta_row (upsert request_row (table guarded)) \<and>
        getItem (snd outcome) (JStr (''user_'' @ uid)) (JStr (created_at_now env)) =
          Some request_row \<and>
        getItem (snd outcome) (JStr (''meta_'' @ reference)) (JStr ''meta'') =
          Some meta_row \<and>
        map fst (errors (snd outcome)) =
          map fst (errors w) @ (if res_ok res then [] else [''KYC response non-200''])"
    if v: "verifyShuftiSignature h cfg (JStr (res_text res)) (JStr (signature_header res)) =
        Inr True"
      and a1: "\<not> putItem_rejects h request_row" and a2: "\<not> putItem_rejects h meta_row"
  proof -
    have st: "outcome =
      (Inr (Created reference verificationUrl),
       writeLog
         (log_entry ''kyc_request'' ''created'' ''New Shufti session created''
            (obj [(''userId'', fld clean ''userId''), (''reference'', JStr reference),
                  (''event'', event)])
            False)
         ((after_status_check clean reference res parsed ?w2)
            \<lparr> table := upsert meta_row (upsert request_row
                 (table (after_status_check clean reference res parsed ?w2))),
              puts := puts (after_status_check clean reference res parsed ?w2) @
                 [request_row, meta_row] \<rparr>))"
      unfolding eq receiveResponse_valid [OF assms(17) v]
      using a1 a2
      unfolding request_row_def meta_row_def event_def verificationUrl_def
      by (intro persistAttempt_stored [OF assms(18)])
    show ?thesis
      unfolding st
      by (simp add: gp g(3) getItem_def find_upsert row_key_new_rows
            request_row_def meta_row_def)
  qed
  have invalid: "fst outcome = Inl InvalidSignature \<and>
        puts (snd outcome) = puts w @ advisory \<and>
        table (snd outcome) = table guarded \<and>
        map fst (errors (snd outcome)) =
          map fst (errors w) @ (if res_ok res then [] else [''KYC response non-200'']) @
          [''KYC response signature invalid'']"
    if v: "verifyShuftiSignature h cfg (JStr (res_text res)) (JStr (signature_header res)) =
        Inr False"
    unfolding eq receiveResponse_invalid [OF assms(17) v]
    by (simp add: gp g(3))
  show ?thesis
    using valid invalid gp adv
    by (simp add: new_rows_fields request_row_def meta_row_def)
qed

theorem response_validation_order_witness:
  "validate_args demo_args = Inr demo_clean \<and>
   find (accepted_entry empty_world) (sortedTimeline empty_world demo_clean) = None \<and>
   find (active_entry empty_world) (sortedTimeline empty_world demo_clean) = None \<and>
   documentConfig demo_args = JUndefined \<and>
   to_String (fld demo_clean ''userId'') = Some ''u7'' \<and>
   res_ok signed_400 = False \<and>
   verifyShuftiSignature (demo_host (Some signed_400)) demo_config
     (JStr (res_text signed_400)) (JStr (signature_header signed_400)) = Inr True \<and>
   fst (createVerificationSession (demo_host (Some signed_400)) demo_config demo_env demo_args
          empty_world) = Inr (Created ''ref-1740787200000-42'' JNull) \<and>
   puts (snd (createVerificationSession (demo_host (Some signed_400)) demo_config
          demo_env demo_args empty_world)) =
     [verification_request_row demo_clean ''u7'' ''ref-1740787200000-42''
        ''2025-03-01T00:00:00.000Z'' (JStr ''unknown'') JNull
        (payload_of demo_config demo_clean ''ref-1740787200000-42'' (JStr ''en'') (JObj []))
        (JObj []) (JStr ''en''),
      new_meta_row demo_clean ''ref-1740787200000-42'' ''2025-03-01T00:00:00.000Z''
        (JStr ''unknown'') JNull (JStr ''en'')] \<and>
   map fst (errors (snd (createVerificationSession (demo_host (Some signed_400)) demo_config
          demo_env demo_args empty_world))) = [''KYC response non-200''] \<and>
   res_ok unsigned_400 = False \<and>
   verifyShuftiSignature (demo_host (Some unsigned_400)) demo_config
     (JStr (res_text unsigned_400)) (JStr (signature_header unsigned_400)) = Inr False \<and>
   fst (createVerificationSession (demo_host (Some unsigned_400)) demo_config demo_env
          demo_args empty_world) = Inl InvalidSignature \<and>
   puts (snd (createVerificationSession (demo_host (Some unsigned_400)) demo_config demo_env
          demo_args empty_world)) = [] \<and>
   table (snd (createVerificationSession (demo_host (Some unsigned_400)) demo_config demo_env
          demo_args empty_world)) = [] \<and>
   map fst (errors (snd (createVerificationSession (demo_host (Some unsigned_400)) demo_config
          demo_env demo_args empty_world))) =
     [''KYC response non-200'', ''KYC response signature invalid'']"
proof -
  have scan: "find (accepted_entry empty_world) (sortedTimeline empty_world demo_clean) = None"
      "find (active_entry empty_world) (sortedTimeline empty_world demo_clean) = None"
    by (simp_all add: demo_timeline)
  have dc: "documentConfig demo_args \<noteq> JNull" "documentConfig demo_args = JUndefined"
    by (simp_all add: demo_args_def)
  have f: "fetch (demo_host (Some r)) u a b = Some r" for r u a b
    by (simp add: demo_host_def)
  have acc: "\<not> putItem_rejects (demo_host a) r" for a r
    by (simp add: demo_host_def)
  have e: "errors empty_world = []" "puts empty_world = []" "table empty_world = []"
    "LOCAL_REQUEST_TIMESTAMPS empty_world = []"
    by (simp_all add: empty_world_def)
  have none: "js_or (get_prop (JObj []) k) d = d" for k d
    by (simp add: get_prop_def fld_def)
  have uid: "to_String (fld demo_clean ''userId'') = Some ''u7''"
    by (simp add: demo_clean_def fld_def)
  have quiet: "\<not> PER_MINUTE_LIMIT demo_config <
      int (length (shift_old (guard_now demo_env)
             (LOCAL_REQUEST_TIMESTAMPS empty_world @ [guard_now demo_env])))"
    by (simp add: e demo_config_def CONFIG_def)
  have g: "registerLocalRateAndMaybeAlert (demo_host a) demo_config
      ''createVerificationSession'' (guard_now demo_env) (guard_iso1 demo_env)
      (guard_iso2 demo_env) empty_world =
      (Inr (), empty_world\<lparr> LOCAL_REQUEST_TIMESTAMPS :=
          shift_old (guard_now demo_env)
            (LOCAL_REQUEST_TIMESTAMPS empty_world @ [guard_now demo_env]) \<rparr>)" for a
    by (rule guard_quiet [OF quiet])
  have env: "created_at_now demo_env = ''2025-03-01T00:00:00.000Z''"
    by (simp add: demo_env_def)
  show ?thesis
    using scan dc e env uid demo_validate demo_responses demo_reference none acc quiet
      response_validation_order [where h = "demo_host (Some signed_400)"
        and cfg = demo_config and env = demo_env and w = empty_world and res = signed_400,
        OF demo_validate scan g demo_language dc(1) f demo_responses(3) uid]
      response_validation_order [where h = "demo_host (Some unsigned_400)"
        and cfg = demo_config and env = demo_env and w = empty_world and res = unsigned_400,
        OF demo_validate scan g demo_language dc(1) f demo_responses(4) uid]
    by simp
qed

section \<open>How the meta row of a reference is resolved\<close>










end
